theory Spec2Isabelle
  imports Main "HOL-Library.Word"
begin

unbundle bit_operations_syntax

section \<open>Data model of the persistence server\<close>

text \<open>
  The development follows the server with LevelDB and Firebase persistence
  (the second file of \<^verbatim>\<open>src/unnamed/part_000\<close>).  Sockets and \<^verbatim>\<open>Y.Doc\<close> objects are
  compared by identity in the source, so both are identities here; the objects themselves
  live in a heap indexed by identity.  Wall-clock readings are milliseconds.
\<close>

type_synonym byte = "8 word"
type_synonym bytes = "byte list"
type_synonym docName = string
type_synonym conn = nat
type_synonym docid = nat
type_synonym clientID = nat
type_synonym time = nat
type_synonym change = "clientID list \<times> clientID list \<times> clientID list"

text \<open>The metadata objects kept in \<^verbatim>\<open>docMetadata\<close>.  The update listener may create an
  object that has only \<^verbatim>\<open>lastModified\<close>, hence optional fields.\<close>

record metadata =
  created :: "time option"
  lastModified :: "time option"
  version :: "nat option"

text \<open>The value written under \<^verbatim>\<open>yjs-documents/<docName>\<close>.  The content is stored base64
  encoded; the encoding is a bijection on byte strings and is left out.\<close>

record fb_record =
  fb_content :: bytes
  fb_metadata :: metadata
  fb_timestamp :: time

datatype ready_state = CONNECTING | OPEN | CLOSING | CLOSED

text \<open>Listeners of a document's \<^verbatim>\<open>update\<close> event, in registration order: the one that
  \<^verbatim>\<open>getOrCreateDocument\<close> installs, and one \<^verbatim>\<open>messageListener\<close> per set-up connection.\<close>

datatype handler = BackupHandler docName | MessageListener conn

datatype timer_action = BackupDue docName | Cleanup1 docid docName | Cleanup2 docid docName

text \<open>Output of \<^verbatim>\<open>console.warn\<close> and \<^verbatim>\<open>console.error\<close>; informational lines are not kept.\<close>

datatype log_entry =
    BackupFailed docName
  | RestoreFailed docName
  | InitFailed docName
  | UnknownMessageType nat
  | ErrorProcessingMessage
  | SendFailed conn

text \<open>A pending \<^verbatim>\<open>docRef.set\<close>: issued by the queue loop while it visits a queue position,
  or by a direct call of \<^verbatim>\<open>backupDocument\<close> (graceful shutdown).\<close>

datatype origin = FromQueue nat | Direct

text \<open>What \<^verbatim>\<open>getOrCreateDocument\<close> has in hand when it first suspends: the registered
  document, or the new \<^verbatim>\<open>Y.Doc\<close> it is about to restore into.\<close>

datatype lookup = Found docid | Restoring docid

text \<open>Outcome of an awaited read.\<close>

datatype 'x promise = Resolved 'x | Rejected

subsection \<open>The libraries, as capabilities\<close>

text \<open>
  lib0, yjs and y-protocols are not part of the repository.  Their functions are the
  fields of a record that every operation takes as its first argument, so that theorems
  hold for whatever the libraries compute.  A call that can throw reports so in its
  result (\<open>None\<close>, or a flag next to the state the call left behind).
  \<^item> \<open>readSyncMessage c payload\<close> gives the content after the call, the payload of the
    \<^verbatim>\<open>update\<close> event if the content changed, the bytes written to the reply encoder and
    whether the call threw.
  \<^item> \<open>applyAwarenessUpdate a payload\<close> and \<open>removeAwarenessStates a ids\<close> give the table
    after the call and the \<open>(added, updated, removed)\<close> argument of the awareness
    \<^verbatim>\<open>update\<close> event if one is emitted.
\<close>

record ('c, 'a) lib =
  readVarUint :: "bytes \<Rightarrow> (nat \<times> bytes) option"
  readVarUint8Array :: "bytes \<Rightarrow> (bytes \<times> bytes) option"
  writeVarUint :: "nat \<Rightarrow> bytes"
  writeVarUint8Array :: "bytes \<Rightarrow> bytes"
  newDoc :: 'c
  encodeStateAsUpdate :: "'c \<Rightarrow> bytes"
  applyUpdate :: "'c \<Rightarrow> bytes \<Rightarrow> 'c \<times> bool"
  writeSyncStep1 :: "'c \<Rightarrow> bytes"
  writeUpdate :: "bytes \<Rightarrow> bytes"
  readSyncMessage :: "'c \<Rightarrow> bytes \<Rightarrow> 'c \<times> bytes option \<times> bytes \<times> bool"
  newAwareness :: 'a
  getStates :: "'a \<Rightarrow> clientID list"
  encodeAwarenessUpdate :: "'a \<Rightarrow> clientID list \<Rightarrow> bytes"
  applyAwarenessUpdate :: "'a \<Rightarrow> bytes \<Rightarrow> 'a \<times> change option \<times> bool"
  removeAwarenessStates :: "'a \<Rightarrow> clientID list \<Rightarrow> 'a \<times> change option"

subsection \<open>Documents and the server state\<close>

record ('c, 'a) ydoc =
  ycontent :: 'c
  conns :: "(conn \<times> clientID list) list"
  updateHandlers :: "handler list"
  awareness :: "'a option"
  awarenessHandlers :: "conn list"
  backupTimer :: "nat option"

text \<open>
  The module-level variables (\<^verbatim>\<open>persistence\<close>, \<^verbatim>\<open>docs\<close>, \<^verbatim>\<open>docMetadata\<close>), the fields of
  the one \<^verbatim>\<open>FirebaseBackupManager\<close> instance (\<^verbatim>\<open>database\<close>, \<^verbatim>\<open>backupQueue\<close>,
  \<^verbatim>\<open>isBackupRunning\<close>), and the runtime: object heap, clock, armed timeouts, sockets, what
  was sent to each socket, the console, and the remote writes not yet settled.  A
  configured \<^verbatim>\<open>database\<close> handle carries the remote store, one value per location;
  document names are taken as single path segments.
\<close>

record ('c, 'a) server =
  persistence :: bool
  docs :: "docName \<rightharpoonup> docid"
  docMetadata :: "docName \<rightharpoonup> metadata"
  database :: "(docName \<rightharpoonup> fb_record) option"
  backupQueue :: "docName list"
  isBackupRunning :: bool
  heap :: "docid \<Rightarrow> ('c, 'a) ydoc"
  nextDoc :: docid
  clock :: time
  timers :: "(nat \<times> time \<times> timer_action) list"
  nextTimer :: nat
  readyState :: "conn \<Rightarrow> ready_state"
  binding :: "conn \<rightharpoonup> docid \<times> docName"
  sent :: "(conn \<times> bytes) list"
  console :: "log_entry list"
  inflight :: "(origin \<times> docName \<times> fb_record) list"
  pending :: "conn \<rightharpoonup> docName \<times> lookup"

definition messageSync :: nat where
  "messageSync = 0"

definition messageAwareness :: nat where
  "messageAwareness = 1"

definition FIREBASE_BACKUP_INTERVAL :: time where
  "FIREBASE_BACKUP_INTERVAL = 30000"

section \<open>FirebaseBackupManager\<close>

text \<open>\<^verbatim>\<open>(metadata.version || 0) + 1\<close>\<close>

definition nextVersion :: "metadata \<Rightarrow> nat" where
  "nextVersion m = (case version m of None \<Rightarrow> 0 | Some v \<Rightarrow> v) + 1"

text \<open>\<^verbatim>\<open>docMetadata.get(docName) || {created: now, lastModified: now, version: 1}\<close>\<close>

definition metadataOrDefault :: "('c, 'a) server \<Rightarrow> docName \<Rightarrow> metadata" where
  "metadataOrDefault s docName =
     (case docMetadata s docName of
        Some m \<Rightarrow> m
      | None \<Rightarrow> \<lparr>created = Some (clock s), lastModified = Some (clock s), version = Some 1\<rparr>)"

text \<open>
  \<^verbatim>\<open>backupDocument\<close> up to its \<^verbatim>\<open>await\<close>: nothing happens without a database handle;
  otherwise the metadata is stamped, its version incremented and stored back in
  \<^verbatim>\<open>docMetadata\<close>, and the write of the record is issued.  The time stamp that the
  database server fills in is taken to be the clock at the call.
\<close>

definition backupDocument_issue ::
  "('c, 'a) lib \<Rightarrow> ('c, 'a) server \<Rightarrow> docName \<Rightarrow> docid
     \<Rightarrow> ('c, 'a) server \<times> (docName \<times> fb_record) option" where
  "backupDocument_issue L s docName d =
     (case database s of
        None \<Rightarrow> (s, None)
      | Some db \<Rightarrow>
          let update = encodeStateAsUpdate L (ycontent (heap s d));
              m0 = metadataOrDefault s docName;
              m = m0\<lparr>lastModified := Some (clock s), version := Some (nextVersion m0)\<rparr>
          in (s\<lparr>docMetadata := (docMetadata s)(docName \<mapsto> m)\<rparr>,
              Some (docName, \<lparr>fb_content = update, fb_metadata = m, fb_timestamp = clock s\<rparr>)))"

text \<open>
  The issued \<^verbatim>\<open>docRef.set\<close> settles: a fulfilled write replaces the value at the
  document's location; a rejected one is caught and logged by \<^verbatim>\<open>backupDocument\<close>.
\<close>

definition docRef_set ::
  "('c, 'a) server \<Rightarrow> docName \<times> fb_record \<Rightarrow> bool \<Rightarrow> ('c, 'a) server" where
  "docRef_set s w ok =
     (if ok then s\<lparr>database := map_option (\<lambda>db. db(fst w \<mapsto> snd w)) (database s)\<rparr>
      else s\<lparr>console := console s @ [BackupFailed (fst w)]\<rparr>)"

text \<open>\<^verbatim>\<open>backupDocument\<close> run to completion, with the outcome of the remote write.\<close>

definition backupDocument ::
  "('c, 'a) lib \<Rightarrow> ('c, 'a) server \<Rightarrow> docName \<Rightarrow> docid \<Rightarrow> bool \<Rightarrow> ('c, 'a) server" where
  "backupDocument L s docName d ok =
     (case backupDocument_issue L s docName d of
        (s', None) \<Rightarrow> s'
      | (s', Some w) \<Rightarrow> docRef_set s' w ok)"

text \<open>
  \<^verbatim>\<open>restoreDocument\<close>, with whether the read of the location fails.  Gives the stored
  content or \<^verbatim>\<open>null\<close>; a found record's metadata goes to \<^verbatim>\<open>docMetadata\<close>.
\<close>

definition restoreDocument ::
  "('c, 'a) server \<Rightarrow> docName \<Rightarrow> bool \<Rightarrow> bytes option \<times> ('c, 'a) server" where
  "restoreDocument s docName readFails =
     (case database s of
        None \<Rightarrow> (None, s)
      | Some db \<Rightarrow>
          if readFails then (None, s\<lparr>console := console s @ [RestoreFailed docName]\<rparr>)
          else (case db docName of
                  Some r \<Rightarrow>
                    (Some (fb_content r),
                     s\<lparr>docMetadata := (docMetadata s)(docName \<mapsto> fb_metadata r)\<rparr>)
                | None \<Rightarrow> (None, s)))"



text \<open>
  \<^verbatim>\<open>processBackupQueue\<close>: the loop over the queue from position \<open>i\<close>.  A name without
  a registered document is skipped; a document's backup is issued and the loop suspends
  at the \<^verbatim>\<open>await\<close>; after the last name the queue is cleared and the flag reset.
\<close>

fun pq_loop ::
  "('c, 'a) lib \<Rightarrow> ('c, 'a) server \<Rightarrow> nat \<Rightarrow> docName list \<Rightarrow> ('c, 'a) server" where
  "pq_loop L s i [] = s\<lparr>backupQueue := [], isBackupRunning := False\<rparr>"
| "pq_loop L s i (docName # rest) =
     (case docs s docName of
        None \<Rightarrow> pq_loop L s (Suc i) rest
      | Some d \<Rightarrow>
          (case backupDocument_issue L s docName d of
             (s', None) \<Rightarrow> pq_loop L s' (Suc i) rest
           | (s', Some w) \<Rightarrow> s'\<lparr>inflight := inflight s' @ [(FromQueue i, w)]\<rparr>))"

definition processBackupQueue :: "('c, 'a) lib \<Rightarrow> ('c, 'a) server \<Rightarrow> ('c, 'a) server" where
  "processBackupQueue L s =
     (if isBackupRunning s \<or> backupQueue s = [] then s
      else pq_loop L (s\<lparr>isBackupRunning := True\<rparr>) 0 (backupQueue s))"

text \<open>\<^verbatim>\<open>Set.prototype.add\<close> and \<^verbatim>\<open>delete\<close> on an insertion-ordered set.\<close>

definition setAdd :: "'x list \<Rightarrow> 'x \<Rightarrow> 'x list" where
  "setAdd xs x = (if x \<in> set xs then xs else xs @ [x])"

definition setDelete :: "'x list \<Rightarrow> 'x \<Rightarrow> 'x list" where
  "setDelete xs x = filter (\<lambda>y. y \<noteq> x) xs"

definition scheduleBackup ::
  "('c, 'a) lib \<Rightarrow> ('c, 'a) server \<Rightarrow> docName \<Rightarrow> ('c, 'a) server" where
  "scheduleBackup L s docName =
     processBackupQueue L (s\<lparr>backupQueue := setAdd (backupQueue s) docName\<rparr>)"

text \<open>The \<open>k\<close>-th pending remote write settles; the queue loop that awaited it goes on
  with the next position of the queue as it is then.\<close>

definition writeSettled ::
  "('c, 'a) lib \<Rightarrow> ('c, 'a) server \<Rightarrow> nat \<Rightarrow> bool \<Rightarrow> ('c, 'a) server" where
  "writeSettled L s k ok =
     (if k < length (inflight s) then
        (case inflight s ! k of
           (org, w) \<Rightarrow>
             let s1 = docRef_set (s\<lparr>inflight := take k (inflight s) @ drop (Suc k) (inflight s)\<rparr>) w ok
             in (case org of
                   FromQueue i \<Rightarrow> pq_loop L s1 (Suc i) (drop (Suc i) (backupQueue s1))
                 | Direct \<Rightarrow> s1))
      else s)"

text \<open>One round of the final-backup loop of \<^verbatim>\<open>gracefulShutdown\<close>: \<^verbatim>\<open>backupDocument\<close> is
  called directly for a registered document.\<close>

definition gracefulShutdown_backup ::
  "('c, 'a) lib \<Rightarrow> ('c, 'a) server \<Rightarrow> docName \<Rightarrow> ('c, 'a) server" where
  "gracefulShutdown_backup L s docName =
     (case docs s docName of
        None \<Rightarrow> s
      | Some d \<Rightarrow>
          (case backupDocument_issue L s docName d of
             (s', None) \<Rightarrow> s'
           | (s', Some w) \<Rightarrow> s'\<lparr>inflight := inflight s' @ [(Direct, w)]\<rparr>))"

section \<open>Timers and the backup debounce\<close>

definition setTimeout ::
  "('c, 'a) server \<Rightarrow> time \<Rightarrow> timer_action \<Rightarrow> ('c, 'a) server" where
  "setTimeout s delay a =
     s\<lparr>timers := timers s @ [(nextTimer s, clock s + delay, a)], nextTimer := Suc (nextTimer s)\<rparr>"

definition clearTimeout :: "('c, 'a) server \<Rightarrow> nat \<Rightarrow> ('c, 'a) server" where
  "clearTimeout s tid = s\<lparr>timers := filter (\<lambda>t. fst t \<noteq> tid) (timers s)\<rparr>"

text \<open>\<^verbatim>\<open>scheduleFirebaseBackup\<close>, the closure over \<^verbatim>\<open>backupTimer\<close> of one document.\<close>

definition scheduleFirebaseBackup ::
  "('c, 'a) server \<Rightarrow> docid \<Rightarrow> docName \<Rightarrow> ('c, 'a) server" where
  "scheduleFirebaseBackup s d docName =
     (let s1 = (case backupTimer (heap s d) of Some tid \<Rightarrow> clearTimeout s tid | None \<Rightarrow> s);
          s2 = setTimeout s1 FIREBASE_BACKUP_INTERVAL (BackupDue docName)
      in s2\<lparr>heap := (heap s2)(d := (heap s2 d)\<lparr>backupTimer := Some (nextTimer s1)\<rparr>)\<rparr>)"

section \<open>Connection relay\<close>

text \<open>\<^verbatim>\<open>ws.send\<close>: delivered on an open socket, reported to the error callback otherwise.\<close>

definition send :: "('c, 'a) server \<Rightarrow> conn \<Rightarrow> bytes \<Rightarrow> ('c, 'a) server" where
  "send s c m =
     (if readyState s c = OPEN then s\<lparr>sent := sent s @ [(c, m)]\<rparr>
      else s\<lparr>console := console s @ [SendFailed c]\<rparr>)"

text \<open>\<^verbatim>\<open>doc.conns.forEach((_, c) => { if (c !== conn && c.readyState === c.OPEN) c.send(m) })\<close>\<close>

definition broadcast ::
  "('c, 'a) server \<Rightarrow> docid \<Rightarrow> conn option \<Rightarrow> bytes \<Rightarrow> ('c, 'a) server" where
  "broadcast s d excl m =
     fold (\<lambda>c s'. if Some c \<noteq> excl \<and> readyState s' c = OPEN then send s' c m else s')
       (map fst (conns (heap s d))) s"

text \<open>The \<^verbatim>\<open>messageListener\<close> that the set-up of connection \<open>conn\<close> registers.\<close>

definition messageListener ::
  "('c, 'a) lib \<Rightarrow> ('c, 'a) server \<Rightarrow> docid \<Rightarrow> conn \<Rightarrow> bytes \<Rightarrow> ('c, 'a) server" where
  "messageListener L s d conn update =
     broadcast s d (Some conn) (writeVarUint L messageSync @ writeUpdate L update)"

text \<open>The \<^verbatim>\<open>update\<close> listener of \<^verbatim>\<open>getOrCreateDocument\<close>.\<close>

definition backupListener :: "('c, 'a) server \<Rightarrow> docid \<Rightarrow> docName \<Rightarrow> ('c, 'a) server" where
  "backupListener s d docName =
     (let m = (case docMetadata s docName of
                 Some m \<Rightarrow> m
               | None \<Rightarrow> \<lparr>created = None, lastModified = None, version = None\<rparr>)
      in scheduleFirebaseBackup
           (s\<lparr>docMetadata := (docMetadata s)(docName \<mapsto> m\<lparr>lastModified := Some (clock s)\<rparr>)\<rparr>)
           d docName)"

fun runHandler ::
  "('c, 'a) lib \<Rightarrow> docid \<Rightarrow> bytes \<Rightarrow> handler \<Rightarrow> ('c, 'a) server \<Rightarrow> ('c, 'a) server" where
  "runHandler L d update (BackupHandler docName) s = backupListener s d docName"
| "runHandler L d update (MessageListener conn) s = messageListener L s d conn update"

text \<open>The document emits \<^verbatim>\<open>update\<close>: every registered listener runs, in registration order.\<close>

definition emitUpdate ::
  "('c, 'a) lib \<Rightarrow> ('c, 'a) server \<Rightarrow> docid \<Rightarrow> bytes \<Rightarrow> ('c, 'a) server" where
  "emitUpdate L s d update = fold (runHandler L d update) (updateHandlers (heap s d)) s"

definition setContent :: "('c, 'a) server \<Rightarrow> docid \<Rightarrow> 'c \<Rightarrow> ('c, 'a) server" where
  "setContent s d c = s\<lparr>heap := (heap s)(d := (heap s d)\<lparr>ycontent := c\<rparr>)\<rparr>"

definition setAwareness :: "('c, 'a) server \<Rightarrow> docid \<Rightarrow> 'a \<Rightarrow> ('c, 'a) server" where
  "setAwareness s d a = s\<lparr>heap := (heap s)(d := (heap s d)\<lparr>awareness := Some a\<rparr>)\<rparr>"

text \<open>\<^verbatim>\<open>awarenessChangeHandler\<close>; its second parameter, the origin of the change, shadows
  the connection of the enclosing set-up.\<close>

definition awarenessChangeHandler ::
  "('c, 'a) lib \<Rightarrow> ('c, 'a) server \<Rightarrow> docid \<Rightarrow> change \<Rightarrow> conn option \<Rightarrow> ('c, 'a) server" where
  "awarenessChangeHandler L s d ch origin =
     (case ch of
        (added, updated, removed) \<Rightarrow>
          let changedClients = added @ updated @ removed;
              s1 = (case origin of
                      None \<Rightarrow> s
                    | Some c \<Rightarrow>
                        (case map_of (conns (heap s d)) c of
                           None \<Rightarrow> s
                         | Some ids \<Rightarrow>
                             s\<lparr>heap := (heap s)(d := (heap s d)
                                 \<lparr>conns := map (\<lambda>p. if fst p = c
                                      then (c, fold (\<lambda>x xs. setDelete xs x) removed
                                                 (fold (\<lambda>x xs. setAdd xs x) added ids))
                                      else p) (conns (heap s d))\<rparr>)\<rparr>))
          in (case awareness (heap s1 d) of
                None \<Rightarrow> s1
              | Some aw \<Rightarrow>
                  broadcast s1 d origin
                    (writeVarUint L messageAwareness
                       @ writeVarUint8Array L (encodeAwarenessUpdate L aw changedClients))))"

text \<open>The awareness object emits \<^verbatim>\<open>update\<close>: one handler per set-up connection runs.\<close>

definition emitAwareness ::
  "('c, 'a) lib \<Rightarrow> ('c, 'a) server \<Rightarrow> docid \<Rightarrow> change \<Rightarrow> conn option \<Rightarrow> ('c, 'a) server" where
  "emitAwareness L s d ch origin =
     fold (\<lambda>h s'. awarenessChangeHandler L s' d ch origin) (awarenessHandlers (heap s d)) s"

text \<open>The \<^verbatim>\<open>catch\<close> of the message handler.  The document has no \<^verbatim>\<open>error\<close> listener, so
  \<^verbatim>\<open>doc.emit('error', [err])\<close> calls nothing.\<close>

definition catchMessage :: "('c, 'a) server \<Rightarrow> ('c, 'a) server" where
  "catchMessage s = s\<lparr>console := console s @ [ErrorProcessingMessage]\<rparr>"

text \<open>\<^verbatim>\<open>conn.on('message', ...)\<close>\<close>

definition onMessage ::
  "('c, 'a) lib \<Rightarrow> ('c, 'a) server \<Rightarrow> conn \<Rightarrow> bytes \<Rightarrow> ('c, 'a) server" where
  "onMessage L s conn message =
     (case binding s conn of
        None \<Rightarrow> s
      | Some (d, docName) \<Rightarrow>
          (case readVarUint L message of
             None \<Rightarrow> catchMessage s
           | Some (messageType, rest) \<Rightarrow>
               if messageType = messageSync then
                 (case readSyncMessage L (ycontent (heap s d)) rest of
                    (c', emitted, reply, threw) \<Rightarrow>
                      let s1 = setContent s d c';
                          s2 = (case emitted of None \<Rightarrow> s1 | Some u \<Rightarrow> emitUpdate L s1 d u)
                      in if threw then catchMessage s2
                         else if length (writeVarUint L messageSync @ reply) > 1
                           then send s2 conn (writeVarUint L messageSync @ reply)
                           else s2)
               else if messageType = messageAwareness then
                 (case readVarUint8Array L rest of
                    None \<Rightarrow> catchMessage s
                  | Some (payload, rest') \<Rightarrow>
                      (case awareness (heap s d) of
                         None \<Rightarrow> s
                       | Some aw \<Rightarrow>
                           (case applyAwarenessUpdate L aw payload of
                              (aw', ch, threw) \<Rightarrow>
                                let s1 = setAwareness s d aw';
                                    s2 = (case ch of
                                            None \<Rightarrow> s1
                                          | Some c \<Rightarrow> emitAwareness L s1 d c (Some conn))
                                in if threw then catchMessage s2 else s2)))
               else s\<lparr>console := console s @ [UnknownMessageType messageType]\<rparr>))"

text \<open>\<^verbatim>\<open>conn.on('close', ...)\<close>: the connection is taken out of \<^verbatim>\<open>doc.conns\<close> and its
  listeners are removed; then its controlled ids are looked up in \<^verbatim>\<open>doc.conns\<close>.\<close>

definition onClose :: "('c, 'a) lib \<Rightarrow> ('c, 'a) server \<Rightarrow> conn \<Rightarrow> ('c, 'a) server" where
  "onClose L s conn =
     (case binding s conn of
        None \<Rightarrow> s
      | Some (d, docName) \<Rightarrow>
          let doc = heap s d;
              doc1 = doc\<lparr>conns := filter (\<lambda>p. fst p \<noteq> conn) (conns doc),
                         updateHandlers := remove1 (MessageListener conn) (updateHandlers doc),
                         awarenessHandlers := remove1 conn (awarenessHandlers doc)\<rparr>;
              s1 = s\<lparr>heap := (heap s)(d := doc1)\<rparr>;
              s2 = (case map_of (conns doc1) conn of
                      None \<Rightarrow> s1
                    | Some connControlledIDs \<Rightarrow>
                        (case awareness doc1 of
                           None \<Rightarrow> s1
                         | Some aw \<Rightarrow>
                             (case removeAwarenessStates L aw connControlledIDs of
                                (aw', ch) \<Rightarrow>
                                  (case ch of
                                     None \<Rightarrow> setAwareness s1 d aw'
                                   | Some c \<Rightarrow> emitAwareness L (setAwareness s1 d aw') d c None))))
          in if conns (heap s2 d) = [] then setTimeout s2 30000 (Cleanup1 d docName) else s2)"

text \<open>A due timeout fires: the debounced backup, or one of the two clean-up stages.\<close>

definition fireTimer :: "('c, 'a) lib \<Rightarrow> ('c, 'a) server \<Rightarrow> nat \<Rightarrow> ('c, 'a) server" where
  "fireTimer L s tid =
     (case find (\<lambda>t. fst t = tid) (timers s) of
        None \<Rightarrow> s
      | Some (i, due, a) \<Rightarrow>
          if clock s < due then s
          else
            let s1 = s\<lparr>timers := filter (\<lambda>t. fst t \<noteq> tid) (timers s)\<rparr>
            in (case a of
                  BackupDue docName \<Rightarrow> scheduleBackup L s1 docName
                | Cleanup1 d docName \<Rightarrow>
                    if conns (heap s1 d) = []
                    then setTimeout (scheduleBackup L s1 docName) 60000 (Cleanup2 d docName)
                    else s1
                | Cleanup2 d docName \<Rightarrow>
                    if conns (heap s1 d) = [] then s1\<lparr>docs := (docs s1)(docName := None)\<rparr>
                    else s1))"

section \<open>Document registry\<close>

text \<open>What the awaited reads of one restore give: the document \<^verbatim>\<open>persistence.getYDoc\<close>
  resolves with (or its rejection), whether the Firebase read fails, and whether
  \<^verbatim>\<open>persistence.bindState\<close> throws.\<close>

record 'c io =
  io_getYDoc :: "'c option promise"
  io_onceFails :: bool
  io_bindStateThrows :: bool

definition emptyYdoc :: "('c, 'a) lib \<Rightarrow> ('c, 'a) ydoc" where
  "emptyYdoc L =
     \<lparr>ycontent = newDoc L, conns = [], updateHandlers = [], awareness = None,
      awarenessHandlers = [], backupTimer = None\<rparr>"

text \<open>\<^verbatim>\<open>getOrCreateDocument\<close> up to its first \<^verbatim>\<open>await\<close>.\<close>

definition getOrCreateDocument_begin ::
  "('c, 'a) lib \<Rightarrow> ('c, 'a) server \<Rightarrow> docName \<Rightarrow> ('c, 'a) server \<times> lookup" where
  "getOrCreateDocument_begin L s docName =
     (case docs s docName of
        Some d \<Rightarrow> (s, Found d)
      | None \<Rightarrow>
          (s\<lparr>heap := (heap s)(nextDoc s := emptyYdoc L), nextDoc := Suc (nextDoc s)\<rparr>,
           Restoring (nextDoc s)))"

text \<open>\<^verbatim>\<open>Y.applyUpdate(ydoc, update)\<close> during restore; no listener is registered yet.\<close>

definition applyRestored ::
  "('c, 'a) lib \<Rightarrow> ('c, 'a) server \<Rightarrow> docid \<Rightarrow> bytes \<Rightarrow> ('c, 'a) server \<times> bool" where
  "applyRestored L s d u =
     (case applyUpdate L (ycontent (heap s d)) u of (c', threw) \<Rightarrow> (setContent s d c', threw))"

definition newMetadata :: "('c, 'a) server \<Rightarrow> docName \<Rightarrow> ('c, 'a) server" where
  "newMetadata s docName =
     s\<lparr>docMetadata := (docMetadata s)(docName \<mapsto>
          \<lparr>created = Some (clock s), lastModified = Some (clock s), version = Some 1\<rparr>)\<rparr>"

definition restoreFromFirebase ::
  "('c, 'a) lib \<Rightarrow> ('c, 'a) server \<Rightarrow> docName \<Rightarrow> docid \<Rightarrow> 'c io \<Rightarrow> ('c, 'a) server \<times> bool" where
  "restoreFromFirebase L s docName d io =
     (case restoreDocument s docName (io_onceFails io) of
        (Some firebaseUpdate, s') \<Rightarrow> applyRestored L s' d firebaseUpdate
      | (None, s') \<Rightarrow> (newMetadata s' docName, False))"

text \<open>The restore inside the \<^verbatim>\<open>try\<close>; the flag says whether it threw.\<close>

definition restoreState ::
  "('c, 'a) lib \<Rightarrow> ('c, 'a) server \<Rightarrow> docName \<Rightarrow> docid \<Rightarrow> 'c io \<Rightarrow> ('c, 'a) server \<times> bool" where
  "restoreState L s docName d io =
     (if persistence s then
        (case io_getYDoc io of
           Rejected \<Rightarrow> (s, True)
         | Resolved persistedDoc \<Rightarrow>
             (case persistedDoc of
                Some pd \<Rightarrow>
                  if length (encodeStateAsUpdate L pd) > 0
                  then applyRestored L s d (encodeStateAsUpdate L pd)
                  else restoreFromFirebase L s docName d io
              | None \<Rightarrow> restoreFromFirebase L s docName d io))
      else restoreFromFirebase L s docName d io)"

text \<open>\<^verbatim>\<open>getOrCreateDocument\<close> from the restore to its return: on success the persistence
  binding and the backup listener are set up and the document is registered; the
  \<^verbatim>\<open>catch\<close> registers the document as it is.  Of \<^verbatim>\<open>persistence.bindState\<close>, a call
  into the LevelDB library, only whether it throws is kept.\<close>

definition getOrCreateDocument_finish ::
  "('c, 'a) lib \<Rightarrow> ('c, 'a) server \<Rightarrow> docName \<Rightarrow> docid \<Rightarrow> 'c io \<Rightarrow> ('c, 'a) server" where
  "getOrCreateDocument_finish L s docName d io =
     (case restoreState L s docName d io of
        (s1, threw) \<Rightarrow>
          if threw \<or> (persistence s1 \<and> io_bindStateThrows io) then
            s1\<lparr>console := console s1 @ [InitFailed docName], docs := (docs s1)(docName \<mapsto> d)\<rparr>
          else
            s1\<lparr>heap := (heap s1)(d := (heap s1 d)
                  \<lparr>updateHandlers := updateHandlers (heap s1 d) @ [BackupHandler docName]\<rparr>),
               docs := (docs s1)(docName \<mapsto> d)\<rparr>)"

text \<open>\<^verbatim>\<open>getOrCreateDocument\<close> with nothing else running during its awaits.\<close>

definition getOrCreateDocument ::
  "('c, 'a) lib \<Rightarrow> ('c, 'a) server \<Rightarrow> docName \<Rightarrow> 'c io \<Rightarrow> ('c, 'a) server \<times> docid" where
  "getOrCreateDocument L s docName io =
     (case getOrCreateDocument_begin L s docName of
        (s', Found d) \<Rightarrow> (s', d)
      | (s', Restoring d) \<Rightarrow> (getOrCreateDocument_finish L s' docName d io, d))"

text \<open>\<^verbatim>\<open>Map.prototype.set\<close> on an insertion-ordered map.\<close>

definition mapSet :: "('k \<times> 'v) list \<Rightarrow> 'k \<Rightarrow> 'v \<Rightarrow> ('k \<times> 'v) list" where
  "mapSet xs k v =
     (if k \<in> fst ` set xs then map (\<lambda>p. if fst p = k then (k, v) else p) xs else xs @ [(k, v)])"

text \<open>\<^verbatim>\<open>setupWSConnection\<close> up to \<^verbatim>\<open>await getOrCreateDocument\<close>.\<close>

definition setupWSConnection_begin ::
  "('c, 'a) lib \<Rightarrow> ('c, 'a) server \<Rightarrow> conn \<Rightarrow> docName \<Rightarrow> ('c, 'a) server" where
  "setupWSConnection_begin L s conn docName0 =
     (let docName = (if docName0 = [] then ''default'' else docName0)
      in (case getOrCreateDocument_begin L s docName of
            (s', lk) \<Rightarrow> s'\<lparr>pending := (pending s')(conn \<mapsto> (docName, lk))\<rparr>))"

text \<open>\<^verbatim>\<open>setupWSConnection\<close> once it has the document.\<close>

definition setupWSConnection_finish ::
  "('c, 'a) lib \<Rightarrow> ('c, 'a) server \<Rightarrow> conn \<Rightarrow> docName \<Rightarrow> docid \<Rightarrow> ('c, 'a) server" where
  "setupWSConnection_finish L s conn docName d =
     (let doc = heap s d;
          aw = (case awareness doc of None \<Rightarrow> newAwareness L | Some a \<Rightarrow> a);
          doc1 = doc\<lparr>conns := mapSet (conns doc) conn [],
                     updateHandlers := updateHandlers doc @ [MessageListener conn],
                     awareness := Some aw,
                     awarenessHandlers := awarenessHandlers doc @ [conn]\<rparr>;
          s1 = s\<lparr>heap := (heap s)(d := doc1), binding := (binding s)(conn \<mapsto> (d, docName))\<rparr>;
          s2 = send s1 conn (writeVarUint L messageSync @ writeSyncStep1 L (ycontent doc1))
      in if length (getStates L aw) > 0
         then send s2 conn
                (writeVarUint L messageAwareness
                   @ writeVarUint8Array L (encodeAwarenessUpdate L aw (getStates L aw)))
         else s2)"

text \<open>The restore of a pending set-up completes and the set-up runs to its end.\<close>

definition setupWSConnection_resume ::
  "('c, 'a) lib \<Rightarrow> ('c, 'a) server \<Rightarrow> conn \<Rightarrow> 'c io \<Rightarrow> ('c, 'a) server" where
  "setupWSConnection_resume L s conn io =
     (case pending s conn of
        None \<Rightarrow> s
      | Some (docName, lk) \<Rightarrow>
          let s0 = s\<lparr>pending := (pending s)(conn := None)\<rparr>
          in (case lk of
                Found d \<Rightarrow> setupWSConnection_finish L s0 conn docName d
              | Restoring d \<Rightarrow>
                  setupWSConnection_finish L
                    (getOrCreateDocument_finish L s0 docName d io) conn docName d))"

section \<open>The event loop\<close>

text \<open>What the runtime delivers: time passing, a socket accepted, the restore of a
  pending set-up completing, a message, a close, a timeout firing, a remote write
  settling, and a round of the shutdown backup.  Every \<^verbatim>\<open>await\<close> of the source is a
  point where other events may come first.\<close>

datatype 'c event =
    Tick time
  | Accept conn docName
  | Restored conn "'c io"
  | Message conn bytes
  | Close conn
  | Fire nat
  | WriteSettled nat bool
  | ShutdownBackup docName

fun step :: "('c, 'a) lib \<Rightarrow> 'c event \<Rightarrow> ('c, 'a) server \<Rightarrow> ('c, 'a) server" where
  "step L (Tick t) s = s\<lparr>clock := max (clock s) t\<rparr>"
| "step L (Accept conn docName) s =
     setupWSConnection_begin L (s\<lparr>readyState := (readyState s)(conn := OPEN)\<rparr>) conn docName"
| "step L (Restored conn io) s = setupWSConnection_resume L s conn io"
| "step L (Message conn m) s = onMessage L s conn m"
| "step L (Close conn) s =
     (let s' = onClose L (s\<lparr>readyState := (readyState s)(conn := CLOSED)\<rparr>) conn
      in s'\<lparr>binding := (binding s')(conn := None)\<rparr>)"
| "step L (Fire tid) s = fireTimer L s tid"
| "step L (WriteSettled k ok) s = writeSettled L s k ok"
| "step L (ShutdownBackup docName) s = gracefulShutdown_backup L s docName"

definition run :: "('c, 'a) lib \<Rightarrow> 'c event list \<Rightarrow> ('c, 'a) server \<Rightarrow> ('c, 'a) server" where
  "run L es s = fold (step L) es s"

text \<open>The server after start-up: nothing registered, nothing armed, nothing pending.\<close>

definition initial ::
  "('c, 'a) lib \<Rightarrow> bool \<Rightarrow> (docName \<rightharpoonup> fb_record) option \<Rightarrow> ('c, 'a) server" where
  "initial L p db =
     \<lparr>persistence = p, docs = Map.empty, docMetadata = Map.empty, database = db,
      backupQueue = [], isBackupRunning = False, heap = (\<lambda>d. emptyYdoc L), nextDoc = 0,
      clock = 0, timers = [], nextTimer = 0, readyState = (\<lambda>c. CLOSED), binding = Map.empty,
      sent = [], console = [], inflight = [], pending = Map.empty\<rparr>"


section \<open>A small instance of the libraries\<close>

text \<open>
  Concrete inputs need concrete libraries.  The instance below follows the wire format:
  unsigned variable-length integers of seven bits per byte, low group first; byte arrays
  prefixed by their length; a sync payload that starts with its kind (0 state request,
  1 full state, 2 update); an awareness payload that is a count followed by
  (client id, clock, state) entries, where the empty state is the tombstone.  Its
  document content is a grow-only set of bytes, kept as a list without repetitions.
\<close>

fun lib0_writeVarUint :: "nat \<Rightarrow> bytes" where
  "lib0_writeVarUint n =
     (if 127 < n then word_of_nat (128 + n mod 128) # lib0_writeVarUint (n div 128)
      else [word_of_nat n])"

fun lib0_readVarUint_from :: "nat \<Rightarrow> nat \<Rightarrow> bytes \<Rightarrow> (nat \<times> bytes) option" where
  "lib0_readVarUint_from num mult [] = None"
| "lib0_readVarUint_from num mult (r # rest) =
     (let num' = num + unat (r AND 127) * mult
      in if r < 128 then Some (num', rest)
         else if 9007199254740991 < num' then None
         else lib0_readVarUint_from num' (mult * 128) rest)"

definition lib0_readVarUint :: "bytes \<Rightarrow> (nat \<times> bytes) option" where
  "lib0_readVarUint bs = lib0_readVarUint_from 0 1 bs"

definition lib0_writeVarUint8Array :: "bytes \<Rightarrow> bytes" where
  "lib0_writeVarUint8Array bs = lib0_writeVarUint (length bs) @ bs"

definition lib0_readVarUint8Array :: "bytes \<Rightarrow> (bytes \<times> bytes) option" where
  "lib0_readVarUint8Array bs =
     (case lib0_readVarUint bs of
        None \<Rightarrow> None
      | Some (n, rest) \<Rightarrow> if length rest < n then None else Some (take n rest, drop n rest))"

definition gset_applyUpdate :: "bytes \<Rightarrow> bytes \<Rightarrow> bytes \<times> bool" where
  "gset_applyUpdate c u = (c @ remdups (filter (\<lambda>b. b \<notin> set c) u), False)"

definition gset_readSyncMessage :: "bytes \<Rightarrow> bytes \<Rightarrow> bytes \<times> bytes option \<times> bytes \<times> bool" where
  "gset_readSyncMessage c payload =
     (case lib0_readVarUint payload of
        None \<Rightarrow> (c, None, [], True)
      | Some (kind, rest) \<Rightarrow>
          (case lib0_readVarUint8Array rest of
             None \<Rightarrow> (c, None, [], True)
           | Some (arg, rest') \<Rightarrow>
               if kind = 0 then
                 (c, None,
                  lib0_writeVarUint 1 @ lib0_writeVarUint8Array (filter (\<lambda>b. b \<notin> set arg) c),
                  False)
               else if kind = 1 \<or> kind = 2 then
                 (let new = remdups (filter (\<lambda>b. b \<notin> set c) arg)
                  in (c @ new, if new = [] then None else Some new, [], False))
               else (c, None, [], True)))"

type_synonym table = "(clientID \<times> nat \<times> bytes) list"

definition table_getStates :: "table \<Rightarrow> clientID list" where
  "table_getStates a = map fst (filter (\<lambda>e. snd (snd e) \<noteq> []) a)"

definition table_encode :: "table \<Rightarrow> clientID list \<Rightarrow> bytes" where
  "table_encode a ids =
     lib0_writeVarUint (length ids)
       @ concat (map (\<lambda>i. case map_of a i of
                             None \<Rightarrow> lib0_writeVarUint i @ lib0_writeVarUint 0 @ lib0_writeVarUint8Array []
                           | Some (k, st) \<Rightarrow>
                               lib0_writeVarUint i @ lib0_writeVarUint k @ lib0_writeVarUint8Array st)
                  ids)"

definition table_put :: "table \<Rightarrow> clientID \<Rightarrow> nat \<times> bytes \<Rightarrow> table" where
  "table_put a i v = (i, v) # filter (\<lambda>e. fst e \<noteq> i) a"

text \<open>Entries are applied as they are read, so a payload that breaks off has its first
  entries applied and no event emitted.\<close>

fun table_applyEntries :: "nat \<Rightarrow> bytes \<Rightarrow> table \<Rightarrow> change \<Rightarrow> table \<times> change option \<times> bool" where
  "table_applyEntries 0 bs a (added, updated, removed) =
     (a, if added = [] \<and> updated = [] \<and> removed = [] then None
         else Some (added, updated, removed), False)"
| "table_applyEntries (Suc n) bs a (added, updated, removed) =
     (case lib0_readVarUint bs of
        None \<Rightarrow> (a, None, True)
      | Some (i, r1) \<Rightarrow>
          (case lib0_readVarUint r1 of
             None \<Rightarrow> (a, None, True)
           | Some (k, r2) \<Rightarrow>
               (case lib0_readVarUint8Array r2 of
                  None \<Rightarrow> (a, None, True)
                | Some (st, r3) \<Rightarrow>
                    (case map_of a i of
                       None \<Rightarrow>
                         if 0 < k then
                           table_applyEntries n r3 (table_put a i (k, st))
                             (if st \<noteq> [] then added @ [i] else added, updated, removed)
                         else table_applyEntries n r3 a (added, updated, removed)
                     | Some (k0, st0) \<Rightarrow>
                         if k0 < k \<or> (k0 = k \<and> st = [] \<and> st0 \<noteq> []) then
                           table_applyEntries n r3 (table_put a i (k, st))
                             (added, if st \<noteq> [] then updated @ [i] else updated,
                              if st = [] then removed @ [i] else removed)
                         else table_applyEntries n r3 a (added, updated, removed)))))"

definition table_applyAwarenessUpdate :: "table \<Rightarrow> bytes \<Rightarrow> table \<times> change option \<times> bool" where
  "table_applyAwarenessUpdate a payload =
     (case lib0_readVarUint payload of
        None \<Rightarrow> (a, None, True)
      | Some (n, rest) \<Rightarrow> table_applyEntries n rest a ([], [], []))"

definition table_removeAwarenessStates :: "table \<Rightarrow> clientID list \<Rightarrow> table \<times> change option" where
  "table_removeAwarenessStates a ids =
     (let removed = filter (\<lambda>i. i \<in> set (table_getStates a)) ids
      in (map (\<lambda>e. if fst e \<in> set removed then (fst e, fst (snd e), []) else e) a,
          if removed = [] then None else Some ([], [], removed)))"

definition sampleLib :: "(bytes, table) lib" where
  "sampleLib =
     \<lparr>readVarUint = lib0_readVarUint,
      readVarUint8Array = lib0_readVarUint8Array,
      writeVarUint = lib0_writeVarUint,
      writeVarUint8Array = lib0_writeVarUint8Array,
      newDoc = [],
      encodeStateAsUpdate = (\<lambda>c. c),
      applyUpdate = gset_applyUpdate,
      writeSyncStep1 = (\<lambda>c. lib0_writeVarUint 0 @ lib0_writeVarUint8Array c),
      writeUpdate = (\<lambda>u. lib0_writeVarUint 2 @ lib0_writeVarUint8Array u),
      readSyncMessage = gset_readSyncMessage,
      newAwareness = [],
      getStates = table_getStates,
      encodeAwarenessUpdate = table_encode,
      applyAwarenessUpdate = table_applyAwarenessUpdate,
      removeAwarenessStates = table_removeAwarenessStates\<rparr>"


section \<open>Observations and sample states\<close>

text \<open>The record retrievable for a document: the value at its location in the remote
  store, as \<^verbatim>\<open>docRef.once('value')\<close> reads it.\<close>

definition stored :: "('c, 'a) server \<Rightarrow> docName \<Rightarrow> fb_record option" where
  "stored s docName = (case database s of None \<Rightarrow> None | Some db \<Rightarrow> db docName)"

text \<open>A restore that finds no LevelDB snapshot and whose reads succeed.\<close>

definition noSnapshot :: "bytes io" where
  "noSnapshot = \<lparr>io_getYDoc = Resolved None, io_onceFails = False, io_bindStateThrows = False\<rparr>"

text \<open>A server without LevelDB and with an empty Firebase store, after connection 1 has
  attached to the new document \<^verbatim>\<open>demo\<close>.\<close>

definition demoAttached :: "(bytes, table) server" where
  "demoAttached =
     run sampleLib [Accept 1 ''demo'', Restored 1 noSnapshot]
       (initial sampleLib False (Some Map.empty))"

text \<open>Then a completed backup, an update that adds byte 7 a second later, and a second
  completed backup.\<close>

definition demoBackedUp :: "(bytes, table) server" where
  "demoBackedUp = backupDocument sampleLib demoAttached ''demo'' 0 True"

definition demoBackedUpTwice :: "(bytes, table) server" where
  "demoBackedUpTwice =
     backupDocument sampleLib (run sampleLib [Tick 1000, Message 1 [0, 2, 1, 7]] demoBackedUp)
       ''demo'' 0 True"

text \<open>A second connection attaches to \<^verbatim>\<open>demo\<close>, and a third.\<close>

definition demoTwo :: "(bytes, table) server" where
  "demoTwo = run sampleLib [Accept 2 ''demo'', Restored 2 noSnapshot] demoAttached"

definition demoThree :: "(bytes, table) server" where
  "demoThree = run sampleLib [Accept 3 ''demo'', Restored 3 noSnapshot] demoTwo"

text \<open>Connection 2 announces the state \<^verbatim>\<open>{}\<close> of awareness client 42 (clock 1).\<close>

definition demoPresent :: "(bytes, table) server" where
  "demoPresent = run sampleLib [Message 2 [1, 6, 1, 42, 1, 2, 123, 125]] demoTwo"

text \<open>With LevelDB enabled, two sockets for the absent document \<^verbatim>\<open>demo\<close> are accepted
  before the restore of either has completed.\<close>

definition demoRace :: "(bytes, table) server" where
  "demoRace =
     run sampleLib
       [Accept 1 ''demo'', Accept 2 ''demo'', Restored 1 noSnapshot, Restored 2 noSnapshot]
       (initial sampleLib True (Some Map.empty))"

text \<open>Connection 1 adds byte 7 to \<^verbatim>\<open>demo\<close> and thirty seconds pass.\<close>

definition demoChanged :: "(bytes, table) server" where
  "demoChanged = run sampleLib [Message 1 [0, 2, 1, 7], Tick 30000] demoAttached"

text \<open>Two documents: \<^verbatim>\<open>a\<close> is changed, its backup timer fires and the queue loop issues
  its write; before that write settles, the shutdown backup of \<^verbatim>\<open>b\<close> runs.\<close>

definition shutdownDuringBackup :: "(bytes, table) server" where
  "shutdownDuringBackup =
     run sampleLib
       [Accept 1 ''a'', Restored 1 noSnapshot, Accept 2 ''b'', Restored 2 noSnapshot,
        Message 1 [0, 2, 1, 7], Tick 30000, Fire 0, ShutdownBackup ''b'']
       (initial sampleLib False (Some Map.empty))"



definition levelRejected :: "bytes io" where
  "levelRejected = \<lparr>io_getYDoc = Rejected, io_onceFails = False, io_bindStateThrows = False\<rparr>"

text \<open>The armed backup timeouts of a document name.\<close>

definition pendingBackups ::
  "('c, 'a) server \<Rightarrow> docName \<Rightarrow> (nat \<times> time \<times> timer_action) list" where
  "pendingBackups s n = filter (\<lambda>t. snd (snd t) = BackupDue n) (timers s)"

text \<open>The pending remote writes that the queue loop issued, and what the backup manager's
  mutual exclusion is about.\<close>

definition queueWrites :: "('c, 'a) server \<Rightarrow> (origin \<times> docName \<times> fb_record) list" where
  "queueWrites s = filter (\<lambda>w. fst w \<noteq> Direct) (inflight s)"

definition backupState ::
  "('c, 'a) server \<Rightarrow> (origin \<times> docName \<times> fb_record) list \<times> bool" where
  "backupState s = (inflight s, isBackupRunning s)"

definition serialized :: "('c, 'a) server \<Rightarrow> bool" where
  "serialized s \<longleftrightarrow> length (queueWrites s) = (if isBackupRunning s then 1 else 0)"

text \<open>A content change: a sync message of a connection of the document on which the
  library's reader changes the content, so that the document emits \<^verbatim>\<open>update\<close>.  A run of
  content changes: only such messages, with time passing in between.\<close>

definition contentChange ::
  "('c, 'a) lib \<Rightarrow> ('c, 'a) server \<Rightarrow> conn \<Rightarrow> bytes \<Rightarrow> docid \<Rightarrow> docName \<Rightarrow> bool" where
  "contentChange L s c m d n \<longleftrightarrow>
     binding s c = Some (d, n)
     \<and> (\<exists>rest. readVarUint L m = Some (messageSync, rest)
            \<and> fst (snd (readSyncMessage L (ycontent (heap s d)) rest)) \<noteq> None)"

fun contentChanges ::
  "('c, 'a) lib \<Rightarrow> ('c, 'a) server \<Rightarrow> docid \<Rightarrow> docName \<Rightarrow> 'c event list \<Rightarrow> bool" where
  "contentChanges L s d n [] = True"
| "contentChanges L s d n (e # es) =
     ((case e of
         Tick t \<Rightarrow> True
       | Message c m \<Rightarrow> contentChange L s c m d n
       | _ \<Rightarrow> False)
      \<and> contentChanges L (step L e s) d n es)"

text \<open>The document has the update listener of \<^verbatim>\<open>getOrCreateDocument\<close> in front of the
  message listeners, and its armed backup timeout, if any, is the one \<^verbatim>\<open>backupTimer\<close>
  refers to.\<close>

definition armed :: "('c, 'a) server \<Rightarrow> docid \<Rightarrow> docName \<Rightarrow> bool" where
  "armed s d n \<longleftrightarrow>
     (\<exists>cs. updateHandlers (heap s d) = BackupHandler n # map MessageListener cs)
     \<and> (pendingBackups s n = []
        \<or> (\<exists>tid dl. pendingBackups s n = [(tid, dl, BackupDue n)]
              \<and> backupTimer (heap s d) = Some tid))"

text \<open>What sending and logging leave alone: the timeouts, the heap and the clock; and, of
  every socket, its state, its binding and its membership in \<^verbatim>\<open>doc.conns\<close>.\<close>

definition sched ::
  "('c, 'a) server
     \<Rightarrow> (nat \<times> time \<times> timer_action) list \<times> (docid \<Rightarrow> ('c, 'a) ydoc) \<times> time" where
  "sched s = (timers s, heap s, clock s)"

definition attached ::
  "('c, 'a) server
     \<Rightarrow> (conn \<Rightarrow> ready_state) \<times> (conn \<rightharpoonup> docid \<times> docName) \<times> (docid \<Rightarrow> conn list)" where
  "attached s = (readyState s, binding s, (\<lambda>d. map fst (conns (heap s d))))"

text \<open>Five content changes of \<^verbatim>\<open>demo\<close> within two seconds: four of them here, with the
  time passing up to the fifth.\<close>

definition fiveChanges :: "bytes event list" where
  "fiveChanges =
     [Tick 0, Message 1 [0, 2, 1, 7], Tick 500, Message 1 [0, 2, 1, 8],
      Tick 1000, Message 1 [0, 2, 1, 9], Tick 1500, Message 1 [0, 2, 1, 10], Tick 2000]"

text \<open>The server after the five changes of \<^verbatim>\<open>demo\<close>, the fifth adding byte 11 at 2000, when
  the clock has reached 32000.\<close>

definition demoFiveChanged :: "(bytes, table) server" where
  "demoFiveChanged =
     run sampleLib (fiveChanges @ [Message 1 [0, 2, 1, 11], Tick 32000]) demoAttached"

text \<open>With LevelDB enabled and its read rejected, \<^verbatim>\<open>getOrCreateDocument\<close> ends in its
  \<^verbatim>\<open>catch\<close>.\<close>

definition demoUnbound :: "(bytes, table) server" where
  "demoUnbound =
     run sampleLib [Accept 1 ''demo'', Restored 1 levelRejected]
       (initial sampleLib True (Some Map.empty))"

text \<open>The backup timeout of a second change fires while the queue loop still awaits the
  write it issued for the first; then that write completes.\<close>

definition demoLostBackup :: "(bytes, table) server" where
  "demoLostBackup =
     run sampleLib
       [Message 1 [0, 2, 1, 7], Tick 30000, Fire 0, Message 1 [0, 2, 1, 8], Tick 60000, Fire 1,
        WriteSettled 0 True]
       demoAttached"




text \<open>
  An instance whose encoding of a document's state is never empty, as a state encoder
  that writes counts and lengths has it: the state is written as a byte array with its
  length in front, and applied by reading it back.  With it, a server with LevelDB
  whose Firebase store has a version-4 record of \<^verbatim>\<open>demo\<close> with content 9; and the
  restore where LevelDB holds nothing for the name, so that \<^verbatim>\<open>getYDoc\<close> resolves to a
  new, empty document.
\<close>

definition framed_applyUpdate :: "bytes \<Rightarrow> bytes \<Rightarrow> bytes \<times> bool" where
  "framed_applyUpdate c u =
     (case lib0_readVarUint8Array u of
        None \<Rightarrow> (c, True)
      | Some (bs, rest) \<Rightarrow> gset_applyUpdate c bs)"

definition framedLib :: "(bytes, table) lib" where
  "framedLib =
     sampleLib\<lparr>encodeStateAsUpdate := lib0_writeVarUint8Array, applyUpdate := framed_applyUpdate\<rparr>"

definition framedStore :: "(bytes, table) server" where
  "framedStore =
     initial framedLib True
       (Some [''demo'' \<mapsto>
          \<lparr>fb_content = [1, 9],
           fb_metadata = \<lparr>created = Some 5, lastModified = Some 6, version = Some 4\<rparr>,
           fb_timestamp = 6\<rparr>])"

definition emptyLevelDoc :: "bytes io" where
  "emptyLevelDoc =
     \<lparr>io_getYDoc = Resolved (Some []), io_onceFails = False, io_bindStateThrows = False\<rparr>"

section \<open>Evaluating the model\<close>

lemmas model_defs = run_def initial_def setupWSConnection_begin_def getOrCreateDocument_begin_def
  setupWSConnection_resume_def getOrCreateDocument_finish_def restoreState_def
  restoreFromFirebase_def restoreDocument_def newMetadata_def applyRestored_def
  setupWSConnection_finish_def send_def mapSet_def emptyYdoc_def setContent_def setAwareness_def
  onMessage_def emitUpdate_def emitAwareness_def messageListener_def backupListener_def
  broadcast_def scheduleFirebaseBackup_def setTimeout_def clearTimeout_def catchMessage_def
  awarenessChangeHandler_def onClose_def fireTimer_def scheduleBackup_def processBackupQueue_def
  writeSettled_def gracefulShutdown_backup_def backupDocument_issue_def
  docRef_set_def metadataOrDefault_def nextVersion_def setAdd_def setDelete_def
  messageSync_def messageAwareness_def FIREBASE_BACKUP_INTERVAL_def

lemmas sample_defs = sampleLib_def lib0_readVarUint_def lib0_writeVarUint8Array_def
  lib0_readVarUint8Array_def gset_applyUpdate_def gset_readSyncMessage_def table_getStates_def
  table_encode_def table_put_def table_applyAwarenessUpdate_def table_removeAwarenessStates_def
  noSnapshot_def

text \<open>The sample states, field by field.\<close>

lemma demoAttached_eq:
  "demoAttached =
    \<lparr>persistence = False, docs = [''demo'' \<mapsto> 0],
     docMetadata = [''demo'' \<mapsto> \<lparr>created = Some 0, lastModified = Some 0, version = Some 1\<rparr>],
     database = Some Map.empty, backupQueue = [], isBackupRunning = False,
     heap = (\<lambda>d. emptyYdoc sampleLib)(0 := \<lparr>ycontent = [], conns = [(1, [])],
        updateHandlers = [BackupHandler ''demo'', MessageListener 1], awareness = Some [],
        awarenessHandlers = [1], backupTimer = None\<rparr>),
     nextDoc = 1, clock = 0, timers = [], nextTimer = 0,
     readyState = (\<lambda>c. CLOSED)(1 := OPEN), binding = [1 \<mapsto> (0, ''demo'')],
     sent = [(1, [0, 0, 0])], console = [], inflight = [], pending = Map.empty\<rparr>"
  unfolding demoAttached_def
  by (simp add: model_defs sample_defs Let_def)

lemma demoTwo_eq:
  "demoTwo =
    \<lparr>persistence = False, docs = [''demo'' \<mapsto> 0],
     docMetadata = [''demo'' \<mapsto> \<lparr>created = Some 0, lastModified = Some 0, version = Some 1\<rparr>],
     database = Some Map.empty, backupQueue = [], isBackupRunning = False,
     heap = (\<lambda>d. emptyYdoc sampleLib)(0 := \<lparr>ycontent = [], conns = [(1, []), (2, [])],
        updateHandlers = [BackupHandler ''demo'', MessageListener 1, MessageListener 2],
        awareness = Some [], awarenessHandlers = [1, 2], backupTimer = None\<rparr>),
     nextDoc = 1, clock = 0, timers = [], nextTimer = 0,
     readyState = (\<lambda>c. CLOSED)(1 := OPEN, 2 := OPEN),
     binding = [1 \<mapsto> (0, ''demo''), 2 \<mapsto> (0, ''demo'')],
     sent = [(1, [0, 0, 0]), (2, [0, 0, 0])], console = [], inflight = [],
     pending = Map.empty\<rparr>"
  unfolding demoTwo_def demoAttached_eq
  by (simp add: model_defs sample_defs Let_def)

lemma demoThree_eq:
  "demoThree =
    \<lparr>persistence = False, docs = [''demo'' \<mapsto> 0],
     docMetadata = [''demo'' \<mapsto> \<lparr>created = Some 0, lastModified = Some 0, version = Some 1\<rparr>],
     database = Some Map.empty, backupQueue = [], isBackupRunning = False,
     heap = (\<lambda>d. emptyYdoc sampleLib)(0 := \<lparr>ycontent = [],
        conns = [(1, []), (2, []), (3, [])],
        updateHandlers = [BackupHandler ''demo'', MessageListener 1, MessageListener 2,
                          MessageListener 3],
        awareness = Some [], awarenessHandlers = [1, 2, 3], backupTimer = None\<rparr>),
     nextDoc = 1, clock = 0, timers = [], nextTimer = 0,
     readyState = (\<lambda>c. CLOSED)(1 := OPEN, 2 := OPEN, 3 := OPEN),
     binding = [1 \<mapsto> (0, ''demo''), 2 \<mapsto> (0, ''demo''), 3 \<mapsto> (0, ''demo'')],
     sent = [(1, [0, 0, 0]), (2, [0, 0, 0]), (3, [0, 0, 0])], console = [], inflight = [],
     pending = Map.empty\<rparr>"
  unfolding demoThree_def demoTwo_eq
  by (simp add: model_defs sample_defs Let_def)

lemma demoPresent_eq:
  "demoPresent =
    \<lparr>persistence = False, docs = [''demo'' \<mapsto> 0],
     docMetadata = [''demo'' \<mapsto> \<lparr>created = Some 0, lastModified = Some 0, version = Some 1\<rparr>],
     database = Some Map.empty, backupQueue = [], isBackupRunning = False,
     heap = (\<lambda>d. emptyYdoc sampleLib)(0 := \<lparr>ycontent = [], conns = [(1, []), (2, [42])],
        updateHandlers = [BackupHandler ''demo'', MessageListener 1, MessageListener 2],
        awareness = Some [(42, 1, [123, 125])], awarenessHandlers = [1, 2],
        backupTimer = None\<rparr>),
     nextDoc = 1, clock = 0, timers = [], nextTimer = 0,
     readyState = (\<lambda>c. CLOSED)(1 := OPEN, 2 := OPEN),
     binding = [1 \<mapsto> (0, ''demo''), 2 \<mapsto> (0, ''demo'')],
     sent = [(1, [0, 0, 0]), (2, [0, 0, 0]), (1, [1, 6, 1, 42, 1, 2, 123, 125]),
             (1, [1, 6, 1, 42, 1, 2, 123, 125])],
     console = [], inflight = [], pending = Map.empty\<rparr>"
  unfolding demoPresent_def demoTwo_eq
  by (simp add: model_defs sample_defs Let_def)

lemma demoRace_eq:
  "demoRace =
    \<lparr>persistence = True, docs = [''demo'' \<mapsto> 1],
     docMetadata = [''demo'' \<mapsto> \<lparr>created = Some 0, lastModified = Some 0, version = Some 1\<rparr>],
     database = Some Map.empty, backupQueue = [], isBackupRunning = False,
     heap = (\<lambda>d. emptyYdoc sampleLib)
       (0 := \<lparr>ycontent = [], conns = [(1, [])],
              updateHandlers = [BackupHandler ''demo'', MessageListener 1], awareness = Some [],
              awarenessHandlers = [1], backupTimer = None\<rparr>,
        1 := \<lparr>ycontent = [], conns = [(2, [])],
              updateHandlers = [BackupHandler ''demo'', MessageListener 2], awareness = Some [],
              awarenessHandlers = [2], backupTimer = None\<rparr>),
     nextDoc = 2, clock = 0, timers = [], nextTimer = 0,
     readyState = (\<lambda>c. CLOSED)(1 := OPEN, 2 := OPEN),
     binding = [1 \<mapsto> (0, ''demo''), 2 \<mapsto> (1, ''demo'')],
     sent = [(1, [0, 0, 0]), (2, [0, 0, 0])], console = [], inflight = [],
     pending = Map.empty\<rparr>"
  unfolding demoRace_def
  by (simp add: model_defs sample_defs Let_def)

lemma demoChanged_eq:
  "demoChanged =
    \<lparr>persistence = False, docs = [''demo'' \<mapsto> 0],
     docMetadata = [''demo'' \<mapsto> \<lparr>created = Some 0, lastModified = Some 0, version = Some 1\<rparr>],
     database = Some Map.empty, backupQueue = [], isBackupRunning = False,
     heap = (\<lambda>d. emptyYdoc sampleLib)(0 := \<lparr>ycontent = [7], conns = [(1, [])],
        updateHandlers = [BackupHandler ''demo'', MessageListener 1], awareness = Some [],
        awarenessHandlers = [1], backupTimer = Some 0\<rparr>),
     nextDoc = 1, clock = 30000, timers = [(0, 30000, BackupDue ''demo'')], nextTimer = 1,
     readyState = (\<lambda>c. CLOSED)(1 := OPEN), binding = [1 \<mapsto> (0, ''demo'')],
     sent = [(1, [0, 0, 0])], console = [], inflight = [], pending = Map.empty\<rparr>"
  unfolding demoChanged_def demoAttached_eq
  by (simp add: model_defs sample_defs Let_def)

lemma fold_frame:
  assumes "\<And>x s. P (f x s) = P s"
  shows "P (fold f xs s) = P s"
  using assms by (induction xs arbitrary: s) simp_all

section \<open>Document registry\<close>

text \<open>
  Claim C3.  The registry maps a name to at most one document, but two attaches for the
  same absent name that overlap during the restore leave two distinct documents serving
  connections.  With connections 1 and 2 accepted for \<^verbatim>\<open>demo\<close> before either restore
  completes, each gets a \<^verbatim>\<open>Y.Doc\<close> of its own (0 and 1); the registry keeps only the
  second; an update that connection 1 sends changes document 0 alone and reaches nobody.
\<close>

theorem overlapping_attaches_create_two_documents:
  "docs demoRace ''demo'' = Some 1
   \<and> binding demoRace 1 = Some (0, ''demo'')
   \<and> binding demoRace 2 = Some (1, ''demo'')
   \<and> conns (heap demoRace 0) = [(1, [])]
   \<and> conns (heap demoRace 1) = [(2, [])]
   \<and> sent (run sampleLib [Message 1 [0, 2, 1, 7]] demoRace) = sent demoRace
   \<and> ycontent (heap (run sampleLib [Message 1 [0, 2, 1, 7]] demoRace) 0) = [7]
   \<and> ycontent (heap (run sampleLib [Message 1 [0, 2, 1, 7]] demoRace) 1) = []"
  unfolding demoRace_eq
  by (simp add: model_defs sample_defs Let_def)

text \<open>With LevelDB enabled, a document that \<^verbatim>\<open>getYDoc\<close> resolves to and whose encoded state
  is not empty is always taken: Firebase is not read and its metadata not loaded,
  whatever its store holds.\<close>

lemma firebase_not_read_with_leveldb:
  assumes "persistence s" and "docs s n = None"
    and "io_getYDoc io = Resolved (Some pd)" and "encodeStateAsUpdate L pd \<noteq> []"
    and "getOrCreateDocument L s n io = (s', d)"
  shows "ycontent (heap s' d) = fst (applyUpdate L (newDoc L) (encodeStateAsUpdate L pd))
       \<and> docMetadata s' = docMetadata s"
  using assms
  by (auto simp: getOrCreateDocument_def getOrCreateDocument_begin_def
        getOrCreateDocument_finish_def restoreState_def applyRestored_def setContent_def
        emptyYdoc_def split: prod.splits if_splits)

text \<open>
  Claim C7.  Attach is to restore in priority order: the document in memory, else the
  LevelDB snapshot, else, if LevelDB has no snapshot or an empty one, the Firebase
  snapshot, else a fresh document with metadata of version 1.  With LevelDB enabled and
  holding nothing for \<^verbatim>\<open>demo\<close>, the empty document that \<^verbatim>\<open>getYDoc\<close> resolves to has an
  encoded state of one byte, so the length test of \<^verbatim>\<open>getOrCreateDocument\<close> passes: the
  connection gets an empty document without metadata, nothing is logged, and the
  version-4 record of \<^verbatim>\<open>demo\<close> in Firebase is not read.  With LevelDB disabled the same
  store is restored from.
\<close>

theorem empty_leveldb_document_hides_firebase_snapshot:
  "stored framedStore ''demo''
     = Some \<lparr>fb_content = [1, 9],
             fb_metadata = \<lparr>created = Some 5, lastModified = Some 6, version = Some 4\<rparr>,
             fb_timestamp = 6\<rparr>
   \<and> io_getYDoc emptyLevelDoc = Resolved (Some (newDoc framedLib))
   \<and> encodeStateAsUpdate framedLib (newDoc framedLib) = [0]
   \<and> ycontent (heap (fst (getOrCreateDocument framedLib framedStore ''demo'' emptyLevelDoc)) 0) = []
   \<and> docMetadata (fst (getOrCreateDocument framedLib framedStore ''demo'' emptyLevelDoc)) ''demo''
       = None
   \<and> console (fst (getOrCreateDocument framedLib framedStore ''demo'' emptyLevelDoc)) = []
   \<and> ycontent (heap (fst (getOrCreateDocument framedLib (framedStore\<lparr>persistence := False\<rparr>)
                             ''demo'' emptyLevelDoc)) 0) = [9]
   \<and> docMetadata (fst (getOrCreateDocument framedLib (framedStore\<lparr>persistence := False\<rparr>)
                         ''demo'' emptyLevelDoc)) ''demo''
       = Some \<lparr>created = Some 5, lastModified = Some 6, version = Some 4\<rparr>"
  unfolding framedStore_def
  by (simp add: stored_def getOrCreateDocument_def framedLib_def framed_applyUpdate_def
        emptyLevelDoc_def model_defs sample_defs Let_def)

section \<open>Connection relay\<close>

text \<open>
  Claim C1.  An applied change is to reach every other connection of the document once
  and never its sender.  With connections 1 and 2 on \<^verbatim>\<open>demo\<close>, the update that
  connection 1 sends is forwarded to connection 2 by the listener of connection 1 and
  back to connection 1 by the listener of connection 2; with a third connection every
  connection, the sender included, gets the update twice.
\<close>

theorem sender_receives_own_update:
  "sent (run sampleLib [Message 1 [0, 2, 1, 7]] demoTwo)
     = sent demoTwo @ [(2, [0, 2, 1, 7]), (1, [0, 2, 1, 7])]
   \<and> sent (run sampleLib [Message 1 [0, 2, 1, 7]] demoThree)
     = sent demoThree @ [(2, [0, 2, 1, 7]), (3, [0, 2, 1, 7]), (1, [0, 2, 1, 7]),
                         (3, [0, 2, 1, 7]), (1, [0, 2, 1, 7]), (2, [0, 2, 1, 7])]"
  unfolding demoTwo_eq demoThree_eq
  by (simp add: model_defs sample_defs Let_def)

lemma map_of_filter_out: "map_of (filter (\<lambda>p. fst p \<noteq> k) xs) k = None"
  by (induction xs) auto

text \<open>In no state does the close handler retract anything: the lookup of the controlled
  ids comes after the connection has been deleted from \<^verbatim>\<open>doc.conns\<close>.\<close>

lemma onClose_retracts_nothing:
  "sent (onClose L s conn) = sent s
   \<and> awareness (heap (onClose L s conn) d') = awareness (heap s d')"
  by (simp add: onClose_def Let_def map_of_filter_out setTimeout_def
        split: option.splits prod.splits)

text \<open>
  Claim C2.  When a connection closes, a tombstone for each awareness client it controls
  is to be applied and broadcast.  Connection 2 controls client 42; after it closes, the
  awareness table still holds the state of client 42, and nothing has been sent to the
  remaining connection 1.
\<close>

theorem close_sends_no_tombstone:
  "map_of (conns (heap demoPresent 0)) 2 = Some [42]
   \<and> awareness (heap demoPresent 0) = Some [(42, 1, [123, 125])]
   \<and> awareness (heap (run sampleLib [Close 2] demoPresent) 0) = Some [(42, 1, [123, 125])]
   \<and> conns (heap (run sampleLib [Close 2] demoPresent) 0) = [(1, [])]
   \<and> sent (run sampleLib [Close 2] demoPresent) = sent demoPresent"
  unfolding demoPresent_eq
  by (simp add: model_defs sample_defs Let_def)

text \<open>Handling a message changes no socket's state, binding or membership.\<close>

lemma at_send [simp]: "attached (send s c m) = attached s"
  by (simp add: send_def attached_def)

lemma at_broadcast [simp]: "attached (broadcast s d excl m) = attached s"
  unfolding broadcast_def by (rule fold_frame) simp

lemma at_scheduleFirebaseBackup [simp]:
  "attached (scheduleFirebaseBackup s d n) = attached s"
  by (auto simp: scheduleFirebaseBackup_def setTimeout_def clearTimeout_def attached_def
        Let_def fun_eq_iff split: option.splits)

lemma at_runHandler [simp]: "attached (runHandler L d u h s) = attached s"
proof (cases h)
  case (BackupHandler n)
  have "attached (scheduleFirebaseBackup (s\<lparr>docMetadata := x\<rparr>) d n) = attached s" for x
    by (simp add: attached_def del: at_scheduleFirebaseBackup)
       (simp add: at_scheduleFirebaseBackup[unfolded attached_def, simplified])
  then show ?thesis using BackupHandler by (simp add: backupListener_def Let_def)
next
  case (MessageListener c)
  then show ?thesis by (simp add: messageListener_def)
qed

lemma at_emitUpdate [simp]: "attached (emitUpdate L s d u) = attached s"
  unfolding emitUpdate_def by (rule fold_frame) simp

lemma at_setContent [simp]: "attached (setContent s d c) = attached s"
  by (auto simp: setContent_def attached_def fun_eq_iff)

lemma at_setAwareness [simp]: "attached (setAwareness s d a) = attached s"
  by (auto simp: setAwareness_def attached_def fun_eq_iff)

lemma at_catchMessage [simp]: "attached (catchMessage s) = attached s"
  by (simp add: catchMessage_def attached_def)

lemma at_console [simp]: "attached (s\<lparr>console := x\<rparr>) = attached s"
  by (simp add: attached_def)

lemma map_fst_relabel:
  "map fst (map (\<lambda>p. if fst p = c then (c, v) else p) xs) = map fst xs"
  by (induction xs) auto

lemma at_awarenessChangeHandler [simp]:
  "attached (awarenessChangeHandler L s d ch origin) = attached s"
proof -
  have "attached (s\<lparr>heap := (heap s)(d := (heap s d)
            \<lparr>conns := map (\<lambda>p. if fst p = c then (c, v) else p) (conns (heap s d))\<rparr>)\<rparr>)
          = attached s" for c v
    by (auto simp: attached_def fun_eq_iff map_fst_relabel)
  then show ?thesis
    by (simp add: awarenessChangeHandler_def Let_def split: prod.splits option.splits)
qed

lemma at_emitAwareness [simp]: "attached (emitAwareness L s d ch origin) = attached s"
  unfolding emitAwareness_def by (rule fold_frame) simp


text \<open>The listeners of the two \<^verbatim>\<open>update\<close> events log nothing.\<close>

lemma co_broadcast [simp]: "console (broadcast s d excl m) = console s"
  unfolding broadcast_def by (rule fold_frame) (simp add: send_def)

lemma co_runHandler [simp]: "console (runHandler L d u h s) = console s"
  by (cases h)
     (simp_all add: messageListener_def backupListener_def scheduleFirebaseBackup_def
        setTimeout_def clearTimeout_def Let_def split: option.splits)

lemma co_emitUpdate [simp]: "console (emitUpdate L s d u) = console s"
  unfolding emitUpdate_def by (rule fold_frame) simp

lemma co_awarenessChangeHandler [simp]:
  "console (awarenessChangeHandler L s d ch origin) = console s"
  by (simp add: awarenessChangeHandler_def Let_def split: prod.splits option.splits)

lemma co_emitAwareness [simp]: "console (emitAwareness L s d ch origin) = console s"
  unfolding emitAwareness_def by (rule fold_frame) simp




section \<open>The backup manager\<close>

lemma getOrCreateDocument_registers:
  "getOrCreateDocument L s docName io = (s', d) \<Longrightarrow> docs s' docName = Some d"
  by (auto simp: getOrCreateDocument_def getOrCreateDocument_begin_def
        getOrCreateDocument_finish_def split: option.splits prod.splits if_splits)

text \<open>
  Claim C10.  When the Firebase database handle is null, \<^verbatim>\<open>backupDocument\<close> issues no
  write and returns with the whole server state, the document's metadata and version
  counter included, as it was; \<^verbatim>\<open>restoreDocument\<close> returns null and logs no error; and
  \<^verbatim>\<open>getOrCreateDocument\<close> still registers and returns a document, whatever the reads do.
\<close>

theorem no_database_backup_restore:
  assumes "database s = None"
  shows "backupDocument_issue L s docName d = (s, None)
       \<and> backupDocument L s docName d ok = s
       \<and> restoreDocument s docName readFails = (None, s)
       \<and> docs (fst (getOrCreateDocument L s docName io)) docName
           = Some (snd (getOrCreateDocument L s docName io))"
  using assms getOrCreateDocument_registers[of L s docName io]
  by (simp add: backupDocument_issue_def backupDocument_def restoreDocument_def prod_eq_iff)

theorem no_database_backup_restore_witness:
  "database (initial sampleLib True None) = None
   \<and> backupDocument_issue sampleLib (initial sampleLib True None) ''demo'' 0
       = (initial sampleLib True None, None)
   \<and> backupDocument sampleLib (initial sampleLib True None) ''demo'' 0 True
       = initial sampleLib True None
   \<and> restoreDocument (initial sampleLib True None) ''demo'' False
       = (None, initial sampleLib True None)
   \<and> docs (fst (getOrCreateDocument sampleLib (initial sampleLib True None) ''demo'' noSnapshot))
        ''demo''
       = Some (snd (getOrCreateDocument sampleLib (initial sampleLib True None) ''demo''
                      noSnapshot))"
proof -
  have h: "database (initial sampleLib True None :: (bytes, table) server) = None"
    by (simp add: initial_def)
  from no_database_backup_restore[OF h, of sampleLib "''demo''" 0 True False noSnapshot]
  show ?thesis using h by simp
qed







text \<open>
  Claim C5, as the code has it.  A completed backup write puts the new record (the
  encoded current content, the metadata with the incremented version) at the document's
  location, where it replaces whatever was stored: the record retrievable for the
  document afterwards is the newest one.
\<close>

theorem backup_write_replaces_record:
  assumes "database s = Some db"
  shows "stored (backupDocument L s n d True) n
           = Some \<lparr>fb_content = encodeStateAsUpdate L (ycontent (heap s d)),
                   fb_metadata = (metadataOrDefault s n)
                      \<lparr>lastModified := Some (clock s),
                       version := Some (nextVersion (metadataOrDefault s n))\<rparr>,
                   fb_timestamp = clock s\<rparr>"
  using assms
  by (simp add: backupDocument_def backupDocument_issue_def docRef_set_def stored_def Let_def)

lemma demoBackedUp_eq:
  "demoBackedUp =
    \<lparr>persistence = False, docs = [''demo'' \<mapsto> 0],
     docMetadata = [''demo'' \<mapsto> \<lparr>created = Some 0, lastModified = Some 0, version = Some 2\<rparr>],
     database = Some [''demo'' \<mapsto>
        \<lparr>fb_content = [],
         fb_metadata = \<lparr>created = Some 0, lastModified = Some 0, version = Some 2\<rparr>,
         fb_timestamp = 0\<rparr>],
     backupQueue = [], isBackupRunning = False,
     heap = (\<lambda>d. emptyYdoc sampleLib)(0 := \<lparr>ycontent = [], conns = [(1, [])],
        updateHandlers = [BackupHandler ''demo'', MessageListener 1], awareness = Some [],
        awarenessHandlers = [1], backupTimer = None\<rparr>),
     nextDoc = 1, clock = 0, timers = [], nextTimer = 0,
     readyState = (\<lambda>c. CLOSED)(1 := OPEN), binding = [1 \<mapsto> (0, ''demo'')],
     sent = [(1, [0, 0, 0])], console = [], inflight = [], pending = Map.empty\<rparr>"
  unfolding demoBackedUp_def demoAttached_eq
  by (simp add: backupDocument_def model_defs sample_defs Let_def numeral_2_eq_2)

theorem backup_write_replaces_record_witness:
  "stored demoBackedUp ''demo''
     = Some \<lparr>fb_content = [],
             fb_metadata = \<lparr>created = Some 0, lastModified = Some 0, version = Some 2\<rparr>,
             fb_timestamp = 0\<rparr>
   \<and> stored (backupDocument sampleLib demoBackedUp ''demo'' 0 True) ''demo''
       = Some \<lparr>fb_content = [],
               fb_metadata = \<lparr>created = Some 0, lastModified = Some 0, version = Some 3\<rparr>,
               fb_timestamp = 0\<rparr>"
proof -
  let ?r = "\<lparr>fb_content = [],
              fb_metadata = \<lparr>created = Some 0, lastModified = Some 0, version = Some 2\<rparr>,
              fb_timestamp = 0\<rparr>"
  have h: "database demoBackedUp = Some [''demo'' \<mapsto> ?r]"
    and e: "encodeStateAsUpdate sampleLib (ycontent (heap demoBackedUp 0)) = []"
    and c: "clock demoBackedUp = 0"
    and m: "metadataOrDefault demoBackedUp ''demo''
              = \<lparr>created = Some 0, lastModified = Some 0, version = Some 2\<rparr>"
    unfolding demoBackedUp_eq by (simp_all add: metadataOrDefault_def sampleLib_def)
  from backup_write_replaces_record[OF h, of sampleLib "''demo''" 0]
  show ?thesis using h e c m by (simp add: nextVersion_def stored_def)
qed

text \<open>
  The claim as stated fails: the record of the first backup (version 2, empty content)
  is what the store holds after it, and after the second backup the store holds the
  second record (version 3, content 7) in its place.
\<close>

theorem second_backup_overwrites_first:
  "stored demoBackedUp ''demo''
     = Some \<lparr>fb_content = [],
             fb_metadata = \<lparr>created = Some 0, lastModified = Some 0, version = Some 2\<rparr>,
             fb_timestamp = 0\<rparr>
   \<and> stored demoBackedUpTwice ''demo''
     = Some \<lparr>fb_content = [7],
             fb_metadata = \<lparr>created = Some 0, lastModified = Some 1000, version = Some 3\<rparr>,
             fb_timestamp = 1000\<rparr>"
  unfolding demoBackedUpTwice_def demoBackedUp_eq
  by (simp add: backupDocument_def stored_def model_defs sample_defs Let_def)

subsection \<open>Mutual exclusion of the queue loop\<close>

text \<open>Nothing outside the backup manager touches the pending writes or the flag.\<close>

lemma bk_send [simp]: "backupState (send s c m) = backupState s"
  by (simp add: send_def backupState_def)

lemma bk_broadcast [simp]: "backupState (broadcast s d excl m) = backupState s"
  unfolding broadcast_def by (rule fold_frame) simp

lemma bk_scheduleFirebaseBackup [simp]:
  "backupState (scheduleFirebaseBackup s d n) = backupState s"
  by (simp add: scheduleFirebaseBackup_def setTimeout_def clearTimeout_def backupState_def
        Let_def split: option.splits)

lemma bk_runHandler [simp]: "backupState (runHandler L d u h s) = backupState s"
proof (cases h)
  case (BackupHandler n)
  have "backupState (backupListener s d n) = backupState s"
    unfolding backupListener_def Let_def by (simp) (simp add: backupState_def)
  with BackupHandler show ?thesis by simp
next
  case (MessageListener c)
  then show ?thesis by (simp add: messageListener_def)
qed

lemma bk_emitUpdate [simp]: "backupState (emitUpdate L s d u) = backupState s"
  unfolding emitUpdate_def by (rule fold_frame) simp

lemma bk_setContent [simp]: "backupState (setContent s d c) = backupState s"
  by (simp add: setContent_def backupState_def)

lemma bk_setAwareness [simp]: "backupState (setAwareness s d a) = backupState s"
  by (simp add: setAwareness_def backupState_def)

lemma bk_heap_update [simp]: "backupState (s\<lparr>heap := h\<rparr>) = backupState s"
  by (simp add: backupState_def)

lemma bk_console_update [simp]: "backupState (s\<lparr>console := x\<rparr>) = backupState s"
  by (simp add: backupState_def)

lemma bk_awarenessChangeHandler [simp]:
  "backupState (awarenessChangeHandler L s d ch origin) = backupState s"
  by (simp add: awarenessChangeHandler_def Let_def split: prod.splits option.splits)

lemma bk_emitAwareness [simp]: "backupState (emitAwareness L s d ch origin) = backupState s"
  unfolding emitAwareness_def by (rule fold_frame) simp

lemma bk_catchMessage [simp]: "backupState (catchMessage s) = backupState s"
  by (simp add: catchMessage_def backupState_def)

lemma bk_onMessage [simp]: "backupState (onMessage L s conn m) = backupState s"
  by (simp add: onMessage_def Let_def split: prod.splits option.splits)

lemma bk_setTimeout [simp]: "backupState (setTimeout s delay a) = backupState s"
  by (simp add: setTimeout_def backupState_def)

lemma bk_onClose [simp]: "backupState (onClose L s conn) = backupState s"
  by (simp add: onClose_def Let_def split: prod.splits option.splits)

lemma bk_getOrCreateDocument_finish [simp]:
  "backupState (getOrCreateDocument_finish L s n d io) = backupState s"
  by (auto simp: getOrCreateDocument_finish_def restoreState_def restoreFromFirebase_def
        restoreDocument_def applyRestored_def newMetadata_def setContent_def backupState_def
        split: prod.splits option.splits promise.splits if_splits)

lemma bk_setupWSConnection_finish [simp]:
  "backupState (setupWSConnection_finish L s conn n d) = backupState s"
  by (simp add: setupWSConnection_finish_def Let_def) (simp add: backupState_def)

lemma bk_setupWSConnection_begin [simp]:
  "backupState (setupWSConnection_begin L s conn n) = backupState s"
  by (auto simp: setupWSConnection_begin_def getOrCreateDocument_begin_def backupState_def
        Let_def split: option.splits)

lemma bk_setupWSConnection_resume [simp]:
  "backupState (setupWSConnection_resume L s conn io) = backupState s"
proof -
  have "backupState (s\<lparr>pending := x\<rparr>) = backupState s" for x
    by (simp add: backupState_def)
  then show ?thesis
    by (simp add: setupWSConnection_resume_def Let_def
          split: option.splits prod.splits lookup.splits)
qed

lemma bk_issue [simp]: "backupState (fst (backupDocument_issue L s n d)) = backupState s"
  by (simp add: backupDocument_issue_def backupState_def Let_def split: option.splits)

lemma bk_docRef_set [simp]: "backupState (docRef_set s w ok) = backupState s"
  by (simp add: docRef_set_def backupState_def)

lemma serialized_cong:
  "backupState s' = backupState s \<Longrightarrow> serialized s \<Longrightarrow> serialized s'"
  by (simp add: serialized_def queueWrites_def backupState_def)

text \<open>The loop, entered with the flag set and no write of its own pending, either runs
  to its end and resets the flag or suspends on the one write it has issued.\<close>

lemma pq_loop_serialized:
  "isBackupRunning s \<Longrightarrow> queueWrites s = [] \<Longrightarrow> serialized (pq_loop L s i names)"
proof (induction names arbitrary: s i)
  case Nil
  then show ?case by (simp add: serialized_def queueWrites_def)
next
  case (Cons n names)
  show ?case
  proof (cases "docs s n")
    case None
    with Cons show ?thesis by simp
  next
    case (Some d)
    obtain s' w where iss: "backupDocument_issue L s n d = (s', w)"
      by (cases "backupDocument_issue L s n d")
    have bk: "backupState s' = backupState s"
      using bk_issue[of L s n d] iss by simp
    then have run': "isBackupRunning s'" and q': "queueWrites s' = []"
      using Cons.prems by (simp_all add: backupState_def queueWrites_def)
    show ?thesis
    proof (cases w)
      case None
      with Some iss Cons.IH[OF run' q'] show ?thesis by simp
    next
      case (Some rec)
      with \<open>docs s n = Some d\<close> iss run' q' show ?thesis
        by (simp add: serialized_def queueWrites_def)
    qed
  qed
qed

lemma serialized_processBackupQueue:
  "serialized s \<Longrightarrow> serialized (processBackupQueue L s)"
proof (cases "isBackupRunning s \<or> backupQueue s = []")
  case True
  then show "serialized s \<Longrightarrow> ?thesis" by (simp add: processBackupQueue_def)
next
  case False
  assume "serialized s"
  with False have "queueWrites (s\<lparr>isBackupRunning := True\<rparr>) = []"
    by (simp add: serialized_def queueWrites_def)
  from pq_loop_serialized[OF _ this, of L 0 "backupQueue s"] False
  show ?thesis by (simp add: processBackupQueue_def)
qed

lemma serialized_scheduleBackup: "serialized s \<Longrightarrow> serialized (scheduleBackup L s n)"
proof -
  assume a: "serialized s"
  have "serialized (s\<lparr>backupQueue := setAdd (backupQueue s) n\<rparr>)"
    using a by (simp add: serialized_def queueWrites_def)
  then show ?thesis unfolding scheduleBackup_def by (rule serialized_processBackupQueue)
qed

lemma serialized_fireTimer: "serialized s \<Longrightarrow> serialized (fireTimer L s tid)"
proof -
  assume a: "serialized s"
  have t: "serialized (s\<lparr>timers := x\<rparr>)" for x
    using a by (simp add: serialized_def queueWrites_def)
  have d: "serialized (s'\<lparr>docs := x\<rparr>) = serialized s'" for x and s' :: "('a, 'b) server"
    by (simp add: serialized_def queueWrites_def)
  have st: "serialized (setTimeout s' dl a) = serialized s'" for dl a and s' :: "('a, 'b) server"
    by (simp add: serialized_def queueWrites_def setTimeout_def)
  show ?thesis
    using a t
    by (auto simp: fireTimer_def Let_def d st serialized_scheduleBackup
          split: option.splits prod.splits timer_action.splits)
qed

lemma filter_remove_nth:
  "k < length xs \<Longrightarrow>
   length (filter P (take k xs @ drop (Suc k) xs))
     = length (filter P xs) - (if P (xs ! k) then 1 else 0)"
proof -
  assume "k < length xs"
  then have "xs = take k xs @ xs ! k # drop (Suc k) xs"
    by (simp add: id_take_nth_drop)
  then have "filter P xs = filter P (take k xs) @ filter P [xs ! k] @ filter P (drop (Suc k) xs)"
    by (metis append_Cons append_Nil filter_append)
  then show ?thesis by auto
qed

lemma serialized_writeSettled: "serialized s \<Longrightarrow> serialized (writeSettled L s k ok)"
proof (cases "k < length (inflight s)")
  case False
  then show "serialized s \<Longrightarrow> ?thesis" by (simp add: writeSettled_def)
next
  case True
  assume a: "serialized s"
  obtain org w where e: "inflight s ! k = (org, w)" by (cases "inflight s ! k")
  define s0 where "s0 = s\<lparr>inflight := take k (inflight s) @ drop (Suc k) (inflight s)\<rparr>"
  define s1 where "s1 = docRef_set s0 w ok"
  have len: "length (queueWrites s0)
               = length (queueWrites s) - (if org \<noteq> Direct then 1 else 0)"
    using filter_remove_nth[OF True, of "\<lambda>w. fst w \<noteq> Direct"] e
    by (simp add: queueWrites_def s0_def)
  have r0: "isBackupRunning s0 = isBackupRunning s" by (simp add: s0_def)
  have bk1: "backupState s1 = backupState s0" by (simp add: s1_def)
  show ?thesis
  proof (cases org)
    case Direct
    with len r0 a have "serialized s0" by (simp add: serialized_def)
    with bk1 have "serialized s1" by (rule serialized_cong)
    with True e Direct show ?thesis by (simp add: writeSettled_def s1_def s0_def Let_def)
  next
    case (FromQueue i)
    have "queueWrites s \<noteq> []"
      using True e FromQueue unfolding queueWrites_def
      by (metis (mono_tags, lifting) filter_empty_conv fst_conv nth_mem origin.distinct(1))
    with a have run: "isBackupRunning s" and one: "length (queueWrites s) = 1"
      by (auto simp: serialized_def split: if_splits)
    from len one FromQueue have "queueWrites s0 = []" by simp
    with bk1 r0 run have "isBackupRunning s1" "queueWrites s1 = []"
      by (simp_all add: backupState_def queueWrites_def)
    from pq_loop_serialized[OF this, of L "Suc i" "drop (Suc i) (backupQueue s1)"]
    show ?thesis using True e FromQueue
      by (simp add: writeSettled_def s1_def s0_def Let_def)
  qed
qed

lemma serialized_gracefulShutdown_backup:
  "serialized s \<Longrightarrow> serialized (gracefulShutdown_backup L s n)"
proof -
  assume a: "serialized s"
  show ?thesis
  proof (cases "docs s n")
    case None
    with a show ?thesis by (simp add: gracefulShutdown_backup_def)
  next
    case (Some d)
    obtain s' w where iss: "backupDocument_issue L s n d = (s', w)"
      by (cases "backupDocument_issue L s n d")
    have "backupState s' = backupState s" using bk_issue[of L s n d] iss by simp
    then have "serialized s'" using a by (rule serialized_cong)
    then show ?thesis using Some iss
      by (cases w) (simp_all add: gracefulShutdown_backup_def serialized_def queueWrites_def)
  qed
qed

lemma serialized_step: "serialized s \<Longrightarrow> serialized (step L e s)"
proof (cases e)
  case (Tick t)
  then show "serialized s \<Longrightarrow> ?thesis" by (simp add: serialized_def queueWrites_def)
next
  case (Accept c n)
  assume "serialized s"
  moreover have "backupState (s\<lparr>readyState := x\<rparr>) = backupState s" for x
    by (simp add: backupState_def)
  ultimately show ?thesis using Accept
    by (auto intro!: serialized_cong[where s=s])
next
  case (Restored c io)
  then show "serialized s \<Longrightarrow> ?thesis" by (auto intro!: serialized_cong[where s=s])
next
  case (Message c m)
  then show "serialized s \<Longrightarrow> ?thesis" by (auto intro!: serialized_cong[where s=s])
next
  case (Close c)
  assume "serialized s"
  moreover have "backupState (s\<lparr>readyState := x\<rparr>) = backupState s" for x
    by (simp add: backupState_def)
  moreover have "backupState (s'\<lparr>binding := x\<rparr>) = backupState s'"
    for x and s' :: "('a, 'b) server"
    by (simp add: backupState_def)
  ultimately show ?thesis using Close
    by (auto simp: Let_def intro!: serialized_cong[where s=s])
next
  case (Fire t)
  then show "serialized s \<Longrightarrow> ?thesis" by (simp add: serialized_fireTimer)
next
  case (WriteSettled k ok)
  then show "serialized s \<Longrightarrow> ?thesis" by (simp add: serialized_writeSettled)
next
  case (ShutdownBackup n)
  then show "serialized s \<Longrightarrow> ?thesis" by (simp add: serialized_gracefulShutdown_backup)
qed

lemma serialized_run: "serialized s \<Longrightarrow> serialized (run L es s)"
  unfolding run_def by (induction es arbitrary: s) (simp_all add: serialized_step)

text \<open>
  Claim C9, as the code has it.  In every state the server reaches, at most one remote
  write issued by \<^verbatim>\<open>processBackupQueue\<close> is pending, whatever the documents: exactly one
  while \<^verbatim>\<open>isBackupRunning\<close> is set and none otherwise.  Writes of direct calls of
  \<^verbatim>\<open>backupDocument\<close> are not counted; the flag does not guard them.
\<close>

theorem queue_writes_serialized:
  "length (queueWrites (run L es (initial L p db)))
     = (if isBackupRunning (run L es (initial L p db)) then 1 else 0)"
proof -
  have "serialized (initial L p db)"
    by (simp add: serialized_def queueWrites_def initial_def)
  then have "serialized (run L es (initial L p db))" by (rule serialized_run)
  then show ?thesis by (simp add: serialized_def)
qed

text \<open>
  The claim as stated fails at shutdown: while the queue loop's write for document
  \<^verbatim>\<open>a\<close> is pending, the shutdown backup issues a write for document \<^verbatim>\<open>b\<close>, and two
  remote writes are pending at once.
\<close>

theorem shutdown_backup_overlaps_queue_backup:
  "map (\<lambda>w. (fst w, fst (snd w))) (inflight shutdownDuringBackup)
     = [(FromQueue 0, ''a''), (Direct, ''b'')]"
  unfolding shutdownDuringBackup_def
  by (simp add: model_defs sample_defs Let_def)

section \<open>Backup scheduling\<close>

lemma pendingBackups_clearTimeout:
  "pendingBackups (clearTimeout s tid) n = filter (\<lambda>t. fst t \<noteq> tid) (pendingBackups s n)"
  by (auto simp: pendingBackups_def clearTimeout_def intro: filter_cong)

text \<open>One run of the update listener, from a state where the document's armed backup
  timeout, if any, is the one \<^verbatim>\<open>backupTimer\<close> refers to.\<close>

lemma backupListener_pending:
  assumes "pendingBackups s n = []
         \<or> (\<exists>tid dl. pendingBackups s n = [(tid, dl, BackupDue n)]
               \<and> backupTimer (heap s d) = Some tid)"
  shows "\<exists>tid. pendingBackups (backupListener s d n) n
                  = [(tid, clock s + FIREBASE_BACKUP_INTERVAL, BackupDue n)]
              \<and> backupTimer (heap (backupListener s d n) d) = Some tid"
proof -
  define s0 where "s0 = s\<lparr>docMetadata := (docMetadata s)(n \<mapsto>
      (case docMetadata s n of Some m \<Rightarrow> m
       | None \<Rightarrow> \<lparr>created = None, lastModified = None, version = None\<rparr>)
        \<lparr>lastModified := Some (clock s)\<rparr>)\<rparr>"
  have l: "backupListener s d n = scheduleFirebaseBackup s0 d n"
    by (simp add: backupListener_def s0_def Let_def)
  have p0: "pendingBackups s0 n = pendingBackups s n" and h0: "heap s0 = heap s"
    and c0: "clock s0 = clock s"
    by (simp_all add: s0_def pendingBackups_def)
  define s1 where
    "s1 = (case backupTimer (heap s0 d) of Some tid \<Rightarrow> clearTimeout s0 tid | None \<Rightarrow> s0)"
  have p1: "pendingBackups s1 n = []"
  proof (cases "backupTimer (heap s0 d)")
    case None
    with assms p0 h0 show ?thesis by (auto simp: s1_def)
  next
    case (Some tid)
    with assms p0 h0 show ?thesis
      by (auto simp: s1_def pendingBackups_clearTimeout)
  qed
  have c1: "clock s1 = clock s"
    using c0 by (simp add: s1_def clearTimeout_def split: option.splits)
  have "pendingBackups (scheduleFirebaseBackup s0 d n) n
          = [(nextTimer s1, clock s + FIREBASE_BACKUP_INTERVAL, BackupDue n)]"
    using p1 c1 unfolding scheduleFirebaseBackup_def Let_def s1_def[symmetric]
    by (simp add: pendingBackups_def setTimeout_def)
  moreover have "backupTimer (heap (scheduleFirebaseBackup s0 d n) d) = Some (nextTimer s1)"
    unfolding scheduleFirebaseBackup_def Let_def s1_def[symmetric] by simp
  ultimately show ?thesis using l by simp
qed

text \<open>Sending, and so every message listener, leaves the timeouts, the heap and the
  clock alone.\<close>

lemma sched_send [simp]: "sched (send s c m) = sched s"
  by (simp add: send_def sched_def)

lemma sched_broadcast [simp]: "sched (broadcast s d excl m) = sched s"
  unfolding broadcast_def by (rule fold_frame) simp

lemma sched_listeners:
  "sched (fold (runHandler L d u) (map MessageListener cs) s) = sched s"
  by (induction cs arbitrary: s) (simp_all add: messageListener_def)

lemma sched_catch [simp]: "sched (catchMessage s) = sched s"
  by (simp add: catchMessage_def sched_def)

lemma sched_fields:
  "sched s' = sched s \<Longrightarrow>
   pendingBackups s' n = pendingBackups s n \<and> heap s' = heap s \<and> clock s' = clock s"
  by (simp add: sched_def pendingBackups_def)

lemma backupListener_handlers:
  "updateHandlers (heap (backupListener s d n) d') = updateHandlers (heap s d')"
  by (simp add: backupListener_def scheduleFirebaseBackup_def setTimeout_def clearTimeout_def
        Let_def split: option.splits)

text \<open>A content change of a document with its update listener installed: the message
  handler applies it, the document emits \<^verbatim>\<open>update\<close>, the update listener re-arms the
  timeout, and the message listeners and the reply only send.\<close>

lemma change_arms:
  assumes a: "armed s d n" and c: "contentChange L s c m d n"
  shows "\<exists>tid. pendingBackups (onMessage L s c m) n
                  = [(tid, clock s + FIREBASE_BACKUP_INTERVAL, BackupDue n)]
              \<and> backupTimer (heap (onMessage L s c m) d) = Some tid"
    and "updateHandlers (heap (onMessage L s c m) d) = updateHandlers (heap s d)"
proof -
  from c obtain rest where
    b: "binding s c = Some (d, n)" and r: "readVarUint L m = Some (messageSync, rest)"
    and nn: "fst (snd (readSyncMessage L (ycontent (heap s d)) rest)) \<noteq> None"
    unfolding contentChange_def by blast
  from nn obtain c' u reply threw where
    y: "readSyncMessage L (ycontent (heap s d)) rest = (c', Some u, reply, threw)"
    by (cases "readSyncMessage L (ycontent (heap s d)) rest") auto
  from a obtain cs where h: "updateHandlers (heap s d) = BackupHandler n # map MessageListener cs"
    by (auto simp: armed_def)
  define s1 where "s1 = setContent s d c'"
  define s2 where "s2 = backupListener s1 d n"
  define s3 where "s3 = fold (runHandler L d u) (map MessageListener cs) s2"
  have h1: "updateHandlers (heap s1 d) = updateHandlers (heap s d)"
    and p1: "pendingBackups s1 n = pendingBackups s n"
    and t1: "backupTimer (heap s1 d) = backupTimer (heap s d)"
    and c1: "clock s1 = clock s"
    by (simp_all add: s1_def setContent_def pendingBackups_def)
  have e: "emitUpdate L s1 d u = s3"
    by (simp add: emitUpdate_def h1 h s3_def s2_def)
  have j1: "pendingBackups s1 n = []
         \<or> (\<exists>tid dl. pendingBackups s1 n = [(tid, dl, BackupDue n)]
               \<and> backupTimer (heap s1 d) = Some tid)"
    using a p1 t1 by (simp add: armed_def)
  from backupListener_pending[OF j1] obtain tid where
    p2: "pendingBackups s2 n = [(tid, clock s + FIREBASE_BACKUP_INTERVAL, BackupDue n)]"
    and t2: "backupTimer (heap s2 d) = Some tid"
    by (auto simp: s2_def c1)
  have h2: "updateHandlers (heap s2 d) = updateHandlers (heap s d)"
    by (simp add: s2_def backupListener_handlers h1)
  have q3: "sched s3 = sched s2"
    by (simp add: s3_def sched_listeners)
  have o: "onMessage L s c m
             = (if threw then catchMessage s3
                else if length (writeVarUint L messageSync @ reply) > 1
                  then send s3 c (writeVarUint L messageSync @ reply) else s3)"
    using b r y e by (simp add: onMessage_def s1_def Let_def)
  have "sched (onMessage L s c m) = sched s2"
    using q3 by (simp add: o)
  from sched_fields[OF this, of n] p2 t2 h2
  show "\<exists>tid. pendingBackups (onMessage L s c m) n
                  = [(tid, clock s + FIREBASE_BACKUP_INTERVAL, BackupDue n)]
              \<and> backupTimer (heap (onMessage L s c m) d) = Some tid"
    and "updateHandlers (heap (onMessage L s c m) d) = updateHandlers (heap s d)"
    by auto
qed

lemma armed_change:
  "armed s d n \<Longrightarrow> contentChange L s c m d n \<Longrightarrow> armed (onMessage L s c m) d n"
  using change_arms[of s d n L c m] unfolding armed_def by metis

lemma armed_tick: "armed s d n \<Longrightarrow> armed (s\<lparr>clock := t\<rparr>) d n"
  by (simp add: armed_def pendingBackups_def)

lemma armed_run:
  "armed s d n \<Longrightarrow> contentChanges L s d n es \<Longrightarrow> armed (run L es s) d n"
proof (induction es arbitrary: s)
  case Nil
  then show ?case by (simp add: run_def)
next
  case (Cons e es)
  from Cons.prems(2) have "armed (step L e s) d n"
    using Cons.prems(1) by (cases e) (simp_all add: armed_tick armed_change)
  with Cons.IH[of "step L e s"] Cons.prems(2) show ?case by (simp add: run_def)
qed

lemma contentChanges_append:
  "contentChanges L s d n (es @ es')
     = (contentChanges L s d n es \<and> contentChanges L (run L es s) d n es')"
  by (induction es arbitrary: s) (auto simp: run_def)

lemma changes_leave_one_timer:
  assumes "updateHandlers (heap s d) = BackupHandler n # map MessageListener cs"
    and "pendingBackups s n = []"
    and "contentChanges L s d n (es @ [Message c m])"
  shows "map snd (pendingBackups (run L (es @ [Message c m]) s) n)
           = [(clock (run L es s) + FIREBASE_BACKUP_INTERVAL, BackupDue n)]"
proof -
  have a: "armed s d n" using assms(1,2) by (auto simp: armed_def)
  from assms(3) have 1: "contentChanges L s d n es"
    and 2: "contentChange L (run L es s) c m d n"
    by (simp_all add: contentChanges_append)
  from armed_run[OF a 1] have "armed (run L es s) d n" .
  from change_arms(1)[OF this 2] show ?thesis by (auto simp: run_def)
qed

lemma fireTimer_backup:
  assumes "find (\<lambda>t. fst t = tid) (timers s) = Some (tid, due, BackupDue n)"
    and "due \<le> clock s" and "\<not> isBackupRunning s" and "backupQueue s = []"
    and "database s = Some db" and "docs s n = Some d"
  shows "inflight (fireTimer L s tid)
           = inflight s @
             [(FromQueue 0, n,
               \<lparr>fb_content = encodeStateAsUpdate L (ycontent (heap s d)),
                fb_metadata = (metadataOrDefault s n)
                   \<lparr>lastModified := Some (clock s),
                    version := Some (nextVersion (metadataOrDefault s n))\<rparr>,
                fb_timestamp = clock s\<rparr>)]"
  using assms
  by (simp add: fireTimer_def scheduleBackup_def processBackupQueue_def setAdd_def
        backupDocument_issue_def metadataOrDefault_def Let_def split: option.splits)

text \<open>An awareness message leaves the armed timeouts alone.\<close>

lemma timers_send [simp]: "timers (send s c m) = timers s"
  by (simp add: send_def)

lemma timers_broadcast [simp]: "timers (broadcast s d excl m) = timers s"
  unfolding broadcast_def by (rule fold_frame) simp

lemma timers_awarenessChangeHandler [simp]:
  "timers (awarenessChangeHandler L s d ch origin) = timers s"
  by (simp add: awarenessChangeHandler_def Let_def split: prod.splits option.splits)

lemma timers_emitAwareness [simp]: "timers (emitAwareness L s d ch origin) = timers s"
  unfolding emitAwareness_def by (rule fold_frame) simp

lemma timers_awareness_message:
  "readVarUint L m = Some (messageAwareness, rest) \<Longrightarrow> timers (onMessage L s conn m) = timers s"
  by (simp add: onMessage_def catchMessage_def setAwareness_def messageSync_def
        messageAwareness_def Let_def split: option.splits prod.splits)

text \<open>
  Claim C6, as the code has it.  For a document that has its update listener (installed
  by \<^verbatim>\<open>getOrCreateDocument\<close> when it does not end in its \<^verbatim>\<open>catch\<close>) and no backup timeout
  armed: after any run of content changes of the document, each a sync message that
  changes its content, with time passing in between, exactly one backup timeout is
  armed, due one backup interval after the latest change; every change cancels the
  armed timeout and arms a new one.  When an armed backup timeout fires with the
  manager idle (no queue loop running, the queue empty), the database configured and the
  document registered, exactly one remote write is issued, and it carries the encoding
  of the document's content at that moment.  An awareness message arms and cancels
  nothing.
\<close>

theorem backup_debounce:
  "(updateHandlers (heap s d) = BackupHandler n # map MessageListener cs
      \<and> pendingBackups s n = []
      \<and> contentChanges L s d n (es @ [Message c m])
      \<longrightarrow> map snd (pendingBackups (run L (es @ [Message c m]) s) n)
            = [(clock (run L es s) + FIREBASE_BACKUP_INTERVAL, BackupDue n)])
   \<and> (find (\<lambda>t. fst t = tid) (timers s') = Some (tid, due, BackupDue n)
        \<and> due \<le> clock s' \<and> \<not> isBackupRunning s' \<and> backupQueue s' = []
        \<and> database s' = Some db \<and> docs s' n = Some d'
      \<longrightarrow> inflight (fireTimer L s' tid)
            = inflight s' @
              [(FromQueue 0, n,
                \<lparr>fb_content = encodeStateAsUpdate L (ycontent (heap s' d')),
                 fb_metadata = (metadataOrDefault s' n)
                    \<lparr>lastModified := Some (clock s'),
                     version := Some (nextVersion (metadataOrDefault s' n))\<rparr>,
                 fb_timestamp = clock s'\<rparr>)])
   \<and> (readVarUint L m' = Some (messageAwareness, rest)
      \<longrightarrow> timers (onMessage L s'' conn m') = timers s'')"
proof (intro conjI impI)
  assume "updateHandlers (heap s d) = BackupHandler n # map MessageListener cs
      \<and> pendingBackups s n = []
      \<and> contentChanges L s d n (es @ [Message c m])"
  with changes_leave_one_timer[of s d n cs L es c m]
  show "map snd (pendingBackups (run L (es @ [Message c m]) s) n)
            = [(clock (run L es s) + FIREBASE_BACKUP_INTERVAL, BackupDue n)]"
    by blast
next
  assume "find (\<lambda>t. fst t = tid) (timers s') = Some (tid, due, BackupDue n)
        \<and> due \<le> clock s' \<and> \<not> isBackupRunning s' \<and> backupQueue s' = []
        \<and> database s' = Some db \<and> docs s' n = Some d'"
  then show "inflight (fireTimer L s' tid)
            = inflight s' @
              [(FromQueue 0, n,
                \<lparr>fb_content = encodeStateAsUpdate L (ycontent (heap s' d')),
                 fb_metadata = (metadataOrDefault s' n)
                    \<lparr>lastModified := Some (clock s'),
                     version := Some (nextVersion (metadataOrDefault s' n))\<rparr>,
                 fb_timestamp = clock s'\<rparr>)]"
    using fireTimer_backup[of tid s' due n db d' L] by blast
next
  assume "readVarUint L m' = Some (messageAwareness, rest)"
  then show "timers (onMessage L s'' conn m') = timers s''"
    by (rule timers_awareness_message)
qed

text \<open>Five content changes within two seconds leave one timeout, due at 32 seconds; fired
  then, it issues one write with the content of all five; and an awareness message
  leaves that timeout as it is.\<close>

theorem backup_debounce_witness:
  "updateHandlers (heap demoAttached 0) = BackupHandler ''demo'' # map MessageListener [1]
   \<and> pendingBackups demoAttached ''demo'' = []
   \<and> contentChanges sampleLib demoAttached 0 ''demo'' (fiveChanges @ [Message 1 [0, 2, 1, 11]])
   \<and> map snd (pendingBackups (run sampleLib (fiveChanges @ [Message 1 [0, 2, 1, 11]])
                                 demoAttached) ''demo'')
       = [(32000, BackupDue ''demo'')]
   \<and> timers demoFiveChanged = [(4, 32000, BackupDue ''demo'')]
   \<and> clock demoFiveChanged = 32000
   \<and> \<not> isBackupRunning demoFiveChanged \<and> backupQueue demoFiveChanged = []
   \<and> database demoFiveChanged = Some Map.empty \<and> docs demoFiveChanged ''demo'' = Some 0
   \<and> inflight demoFiveChanged = []
   \<and> inflight (fireTimer sampleLib demoFiveChanged 4)
       = [(FromQueue 0, ''demo'',
           \<lparr>fb_content = [7, 8, 9, 10, 11],
            fb_metadata = \<lparr>created = Some 0, lastModified = Some 32000, version = Some 2\<rparr>,
            fb_timestamp = 32000\<rparr>)]
   \<and> readVarUint sampleLib [1, 6, 1, 42, 1, 2, 123, 125]
       = Some (messageAwareness, [6, 1, 42, 1, 2, 123, 125])
   \<and> timers (onMessage sampleLib demoFiveChanged 1 [1, 6, 1, 42, 1, 2, 123, 125])
       = [(4, 32000, BackupDue ''demo'')]"
proof -
  have a: "updateHandlers (heap demoAttached 0) = BackupHandler ''demo'' # map MessageListener [1]"
    "pendingBackups demoAttached ''demo'' = []"
    unfolding demoAttached_eq by (simp_all add: pendingBackups_def)
  have w: "contentChanges sampleLib demoAttached 0 ''demo''
             (fiveChanges @ [Message 1 [0, 2, 1, 11]])"
    "clock (run sampleLib fiveChanges demoAttached) = 2000"
    unfolding demoAttached_eq fiveChanges_def
    by (simp_all add: contentChange_def model_defs sample_defs Let_def)
  have c: "timers demoFiveChanged = [(4, 32000, BackupDue ''demo'')]"
    "clock demoFiveChanged = 32000"
    "\<not> isBackupRunning demoFiveChanged" "backupQueue demoFiveChanged = []"
    "database demoFiveChanged = Some Map.empty" "docs demoFiveChanged ''demo'' = Some 0"
    "inflight demoFiveChanged = []"
    "encodeStateAsUpdate sampleLib (ycontent (heap demoFiveChanged 0)) = [7, 8, 9, 10, 11]"
    "metadataOrDefault demoFiveChanged ''demo''
       = \<lparr>created = Some 0, lastModified = Some 2000, version = Some 1\<rparr>"
    unfolding demoFiveChanged_def demoAttached_eq fiveChanges_def
    by (simp_all add: metadataOrDefault_def model_defs sample_defs Let_def)
  have f: "find (\<lambda>t. fst t = 4) (timers demoFiveChanged) = Some (4, 32000, BackupDue ''demo'')"
    "32000 \<le> clock demoFiveChanged"
    using c(1,2) by simp_all
  have r: "readVarUint sampleLib [1, 6, 1, 42, 1, 2, 123, 125]
             = Some (messageAwareness, [6, 1, 42, 1, 2, 123, 125])"
    by (simp add: sample_defs messageAwareness_def)
  note t = backup_debounce[where s=demoAttached and d=0 and n="''demo''" and cs="[1]"
              and L=sampleLib and es=fiveChanges and c=1 and m="[0, 2, 1, 11]"
              and tid=4 and s'=demoFiveChanged and due=32000 and db=Map.empty and d'=0
              and m'="[1, 6, 1, 42, 1, 2, 123, 125]"
              and rest="[6, 1, 42, 1, 2, 123, 125]" and s''=demoFiveChanged and conn=1]
  from t a w c f r show ?thesis
    by (simp add: FIREBASE_BACKUP_INTERVAL_def nextVersion_def)
qed

text \<open>
  The claim as stated fails: the second change does arm a new timeout (the one armed at
  0 for 30000 is gone, another is armed for 31000), and an awareness change, which
  does update the awareness table, arms none.  Two more runs show what the statement
  above has to suppose.  A document that \<^verbatim>\<open>getOrCreateDocument\<close> registered in its \<^verbatim>\<open>catch\<close>
  has no update listener: a change is applied and no timeout is armed.  And a timeout
  that fires while the queue loop awaits the write of the same document issues nothing:
  the name is already in the queue, the loop is running, and when the awaited write
  settles the queue is cleared; the store keeps content 7, the document holds 7 and 8,
  and nothing is armed, queued or in flight.
\<close>

theorem second_change_rearms_timer:
  "timers (run sampleLib [Message 1 [0, 2, 1, 7]] demoAttached) = [(0, 30000, BackupDue ''demo'')]
   \<and> timers (run sampleLib [Message 1 [0, 2, 1, 7], Tick 1000, Message 1 [0, 2, 1, 8]]
               demoAttached) = [(1, 31000, BackupDue ''demo'')]
   \<and> awareness (heap (run sampleLib [Message 1 [1, 6, 1, 42, 1, 2, 123, 125]] demoAttached) 0)
       = Some [(42, 1, [123, 125])]
   \<and> timers (run sampleLib [Message 1 [1, 6, 1, 42, 1, 2, 123, 125]] demoAttached) = []
   \<and> updateHandlers (heap demoUnbound 0) = [MessageListener 1]
   \<and> ycontent (heap (run sampleLib [Message 1 [0, 2, 1, 7]] demoUnbound) 0) = [7]
   \<and> timers (run sampleLib [Message 1 [0, 2, 1, 7]] demoUnbound) = []
   \<and> ycontent (heap demoLostBackup 0) = [7, 8]
   \<and> map_option fb_content (stored demoLostBackup ''demo'') = Some [7]
   \<and> timers demoLostBackup = [] \<and> inflight demoLostBackup = []
   \<and> backupQueue demoLostBackup = [] \<and> \<not> isBackupRunning demoLostBackup"
proof -
  have "timers (run sampleLib [Message 1 [0, 2, 1, 7]] demoAttached)
          = [(0, 30000, BackupDue ''demo'')]
      \<and> timers (run sampleLib [Message 1 [0, 2, 1, 7], Tick 1000, Message 1 [0, 2, 1, 8]]
                  demoAttached) = [(1, 31000, BackupDue ''demo'')]
      \<and> awareness (heap (run sampleLib [Message 1 [1, 6, 1, 42, 1, 2, 123, 125]] demoAttached) 0)
          = Some [(42, 1, [123, 125])]
      \<and> timers (run sampleLib [Message 1 [1, 6, 1, 42, 1, 2, 123, 125]] demoAttached) = []"
    unfolding demoAttached_eq
    by (simp add: model_defs sample_defs Let_def)
  moreover have "updateHandlers (heap demoUnbound 0) = [MessageListener 1]
      \<and> ycontent (heap (run sampleLib [Message 1 [0, 2, 1, 7]] demoUnbound) 0) = [7]
      \<and> timers (run sampleLib [Message 1 [0, 2, 1, 7]] demoUnbound) = []"
    unfolding demoUnbound_def
    by (simp add: levelRejected_def model_defs sample_defs Let_def)
  moreover have "ycontent (heap demoLostBackup 0) = [7, 8]
      \<and> map_option fb_content (stored demoLostBackup ''demo'') = Some [7]
      \<and> timers demoLostBackup = [] \<and> inflight demoLostBackup = []
      \<and> backupQueue demoLostBackup = [] \<and> \<not> isBackupRunning demoLostBackup"
    unfolding demoLostBackup_def demoAttached_eq
    by (simp add: stored_def model_defs sample_defs Let_def)
  ultimately show ?thesis by simp
qed

end
